theory Spec2Isabelle
  imports Complex_Main
begin

section \<open>The lake-ice snow pack step of IceMelt.c\<close>

text \<open>
  This theory embeds \<^verbatim>\<open>ice_melt\<close> and \<^verbatim>\<open>ErrorPrintIcePackEnergyBalance\<close>
  of IceMelt.c. C doubles are read as real numbers (exact arithmetic), so rounding, NaN and
  infinities are outside the model. A division by zero has HOL's value 0; a theorem that
  states the value of a quotient assumes its divisor is not zero.
\<close>

subsection \<open>Constants of the header\<close>

text \<open>
  The macros \<^verbatim>\<open>RHOICE\<close>, \<^verbatim>\<open>RHO_W\<close>, \<^verbatim>\<open>RHOSNOW\<close>, \<^verbatim>\<open>Lf\<close>,
  \<^verbatim>\<open>SECPHOUR\<close>, \<^verbatim>\<open>LIQUID_WATER_CAPACITY\<close> and \<^verbatim>\<open>SNOW_DT\<close> come from
  vicNl.h, which is not among the sources. They are a parameter of the model. The product
  \<^verbatim>\<open>delta_t * SECPHOUR\<close> is taken in the reals (an integer product that overflows is
  outside the model).
\<close>

record vic_consts =
  RHOICE :: real
  RHO_W :: real
  RHOSNOW :: real
  Lf :: real
  SECPHOUR :: real
  LIQUID_WATER_CAPACITY :: real
  SNOW_DT :: real

definition consts_ok :: "vic_consts \<Rightarrow> bool" where
  "consts_ok k = (0 < RHOICE k \<and> 0 < RHO_W k \<and> 0 < RHOSNOW k \<and> 0 < Lf k \<and>
     0 < SECPHOUR k \<and> 0 \<le> LIQUID_WATER_CAPACITY k)"

text \<open>The values used for concrete evaluations (those of the VIC header).\<close>

definition vic :: vic_consts where
  "vic = \<lparr> RHOICE = 917, RHO_W = 1000, RHOSNOW = 250, Lf = 333700,
           SECPHOUR = 3600, LIQUID_WATER_CAPACITY = 35 / 1000, SNOW_DT = 5 \<rparr>"

subsection \<open>State structures and arguments\<close>

text \<open>
  Only the fields IceMelt.c names are listed; the structures are extensible records, and
  the step is defined on every extension, so whatever else the structures hold is carried
  along by the model as it is by the C code.
\<close>

record snow_data_struct =
  swq :: real
  surf_water :: real
  surf_temp :: real
  pack_water :: real
  pack_temp :: real
  vapor_flux :: real
  blowing_flux :: real
  surface_flux :: real
  mass_error :: real

record lake_var_struct =
  hice :: real
  fraci :: real
  volume :: real
  surface :: "nat \<Rightarrow> real"

text \<open>The scalar arguments of \<^verbatim>\<open>ice_melt\<close>, under their C names.\<close>

record forcing =
  z2 :: real
  aero_resist :: real
  Le :: real
  delta_t :: int
  displacement :: real
  Z0 :: real
  surf_atten :: real
  rainfall :: real
  snowfall :: real
  wind :: real
  Tcutoff :: real
  air_temp :: real
  net_short :: real
  longwave :: real
  density :: real
  pressure :: real
  vpd :: real
  vp :: real
  fracprv :: real

subsection \<open>The external primitives\<close>

text \<open>
  \<^verbatim>\<open>icerad\<close>, \<^verbatim>\<open>IceEnergyBalance\<close> and \<^verbatim>\<open>root_brent\<close> are defined in other
  files. They are parameters of the model: pure functions of the values passed to them.
  The variable argument list of the energy balance is split into the by-value arguments
  (\<open>eb_args\<close>, named as \<^verbatim>\<open>ErrorPrintIcePackEnergyBalance\<close> names them) and the nine
  cells passed by address (\<open>eb_cells\<close>, named after the locals of \<^verbatim>\<open>ice_melt\<close>).
  Of the cells, \<^verbatim>\<open>vapor_flux\<close>, \<^verbatim>\<open>blowing_flux\<close> and \<^verbatim>\<open>surface_flux\<close> are
  initialised by \<^verbatim>\<open>ice_melt\<close> before the first call, so the energy balance may read
  them; the other six are uninitialised at the first call and are results only.
\<close>

record eb_args =
  Dt :: real
  Ra :: real
  Z :: real
  Displacement :: real
  Z0' :: real
  Wind :: real
  ShortRad :: real
  LongRadIn :: real
  AirDens :: real
  Lv :: real
  Tair :: real
  Press :: real
  Vpd :: real
  EactAir :: real
  Rain :: real
  SweSurfaceLayer :: real
  SurfaceLiquidWater :: real
  OldTSurf :: real
  DeltaColdContent :: real
  Tfreeze :: real
  AvgCond :: real
  SWconducted :: real
  SnowDepth :: real
  SnowDensity :: real
  SurfAttenuation :: real

record eb_cells =
  c_RefreezeEnergy :: real
  c_vapor_flux :: real
  c_blowing_flux :: real
  c_surface_flux :: real
  c_advection :: real
  c_SnowFlux :: real
  c_latent_heat :: real
  c_sensible_heat :: real
  c_LWnet :: real

record externals =
  icerad :: "real \<Rightarrow> real \<Rightarrow> real \<Rightarrow> real \<times> real \<times> real"
  IceEnergyBalance :: "real \<Rightarrow> eb_args \<Rightarrow> real \<times> real \<times> real \<Rightarrow> real \<times> eb_cells"
  root_brent :: "real \<Rightarrow> real \<Rightarrow> eb_args \<Rightarrow> eb_cells \<Rightarrow> real \<times> string \<times> eb_cells"

text \<open>
  \<open>icerad net_short hice depth\<close> gives \<open>(avgcond, SWconducted, deltaCC)\<close>.
  \<open>IceEnergyBalance Tsurf args (vapor, blowing, surface)\<close> gives the net energy and the
  cells as it leaves them. \<open>root_brent lower upper args cells\<close> gives the root (or the
  failure value), the error text and the cells as its last evaluation leaves them.
\<close>

datatype ext_call =
  Call_icerad
  | Call_CalcIcePackEnergyBalance real
  | Call_root_brent real real
  | Call_ErrorIcePackEnergyBalance real

definition energy_args ::
  "vic_consts \<Rightarrow> forcing \<Rightarrow> real \<Rightarrow> real \<Rightarrow> 'a snow_data_struct_scheme \<Rightarrow> real \<Rightarrow>
   real \<Rightarrow> real \<Rightarrow> real \<Rightarrow> eb_args" where
  "energy_args k f RainFall LakeIce' s OldT deltaCC avgcond SWc =
     \<lparr> Dt = real_of_int (delta_t f), Ra = aero_resist f, Z = z2 f,
       Displacement = displacement f, Z0' = Z0 f, Wind = wind f,
       ShortRad = net_short f, LongRadIn = longwave f, AirDens = density f,
       Lv = Le f, Tair = air_temp f, Press = pressure f * 1000,
       Vpd = vpd f * 1000, EactAir = vp f * 1000, Rain = RainFall,
       SweSurfaceLayer = swq s + LakeIce', SurfaceLiquidWater = surf_water s,
       OldTSurf = OldT, DeltaColdContent = deltaCC, Tfreeze = Tcutoff f,
       AvgCond = avgcond, SWconducted = SWc,
       SnowDepth = swq s * RHO_W k / RHOSNOW k, SnowDensity = RHOSNOW k,
       SurfAttenuation = surf_atten f \<rparr>"

subsection \<open>The diagnostic dump\<close>

text \<open>
  \<^verbatim>\<open>ErrorPrintIcePackEnergyBalance\<close> writes to stderr and calls \<^verbatim>\<open>exit(0)\<close>: it never
  returns. The model gives the exit status and what was written: \<open>Msg\<close> is text (line ends
  left out), \<open>Var name value\<close> is a line \<^verbatim>\<open>name = value\<close>.
\<close>

datatype stderr_item = Msg string | Var string real

record process_exit =
  exit_status :: int
  stderr :: "stderr_item list"

definition ErrorPrintIcePackEnergyBalance ::
  "real \<Rightarrow> eb_args \<Rightarrow> eb_cells \<Rightarrow> string \<Rightarrow> process_exit" where
  "ErrorPrintIcePackEnergyBalance TSurf a c ErrorString =
     \<lparr> exit_status = 0,
       stderr =
        [Msg ErrorString,
         Msg ''ERROR: ice_melt failed to converge to a solution in root_brent.  Variable values will be dumped to the screen, check for invalid values.'',
         Var ''Dt'' (Dt a), Var ''Ra'' (Ra a), Var ''Z'' (Z a),
         Var ''Displacement'' (Displacement a), Var ''Z0'' (Z0' a),
         Var ''Wind'' (Wind a), Var ''ShortRad'' (ShortRad a),
         Var ''LongRadIn'' (LongRadIn a), Var ''AirDens'' (AirDens a),
         Var ''Lv'' (Lv a), Var ''Tair'' (Tair a), Var ''Press'' (Press a),
         Var ''Vpd'' (Vpd a), Var ''EactAir'' (EactAir a), Var ''Rain'' (Rain a),
         Var ''SweSurfaceLayer'' (SweSurfaceLayer a),
         Var ''SurfaceLiquidWater'' (SurfaceLiquidWater a),
         Var ''OldTSurf'' (OldTSurf a),
         Var ''RefreezeEnergy'' (c_RefreezeEnergy c),
         Var ''vapor_flux'' (c_vapor_flux c),
         Var ''blowing_flux'' (c_blowing_flux c),
         Var ''surface_flux'' (c_surface_flux c),
         Var ''AdvectedEnergy'' (c_advection c),
         Var ''DeltaColdContent'' (DeltaColdContent a),
         Var ''Tfreeze'' (Tfreeze a), Var ''AvgCond'' (AvgCond a),
         Var ''SWconducted'' (SWconducted a), Var ''SnowDepth'' (SnowDepth a),
         Var ''SnowDensity'' (SnowDensity a),
         Var ''SurfAttenuation'' (SurfAttenuation a),
         Var ''GroundFlux'' (c_SnowFlux c), Var ''LatentHeat'' (c_latent_heat c),
         Var ''SensibleHeat'' (c_sensible_heat c), Var ''LWnet'' (c_LWnet c),
         Msg ''Finished dumping snow_melt variables.'',
         Msg ''Try increasing SNOW_DT to get model to complete cell.'',
         Msg ''Then check output for instabilities.''] \<rparr>"

text \<open>
  The two variadic wrappers: \<^verbatim>\<open>CalcIcePackEnergyBalance\<close> hands its argument list to
  \<^verbatim>\<open>IceEnergyBalance\<close>, \<^verbatim>\<open>ErrorIcePackEnergyBalance\<close> hands its list to the dump.
\<close>

definition CalcIcePackEnergyBalance ::
  "externals \<Rightarrow> real \<Rightarrow> eb_args \<Rightarrow> real \<times> real \<times> real \<Rightarrow> real \<times> eb_cells" where
  "CalcIcePackEnergyBalance ext Tsurf a v = IceEnergyBalance ext Tsurf a v"

definition ErrorIcePackEnergyBalance ::
  "real \<Rightarrow> eb_args \<Rightarrow> eb_cells \<Rightarrow> string \<Rightarrow> process_exit" where
  "ErrorIcePackEnergyBalance Tsurf a c ErrorString =
     ErrorPrintIcePackEnergyBalance Tsurf a c ErrorString"

declare CalcIcePackEnergyBalance_def [simp] ErrorIcePackEnergyBalance_def [simp]

subsection \<open>The locals of the step\<close>

text \<open>
  The two structures, passed by address, and the locals of \<^verbatim>\<open>ice_melt\<close> that are read
  after they are written. \<^verbatim>\<open>SnowMelt\<close> is declared without an initialiser and assigned
  by each branch before it is read; the frame built before the branch holds 0 there.
  \<open>cells\<close> are the nine locals whose addresses go to the energy balance.
\<close>

record ('a, 'b) frame =
  snow :: "'a snow_data_struct_scheme"
  lake :: "'b lake_var_struct_scheme"
  SnowFall :: real
  RainFall :: real
  InitialSwq :: real
  InitialIce :: real
  OldTSurf_l :: real
  SnowIce :: real
  LakeIce :: real
  IceMelt :: real
  SnowMelt :: real
  RefrozenWater :: real
  RefreezeEnergy :: real
  melt_energy :: real
  avgcond_l :: real
  SWconducted_l :: real
  deltaCC :: real
  Qnet :: real
  cells :: eb_cells

datatype failure = Exit process_exit | Assertion_failed string

definition frame_args :: "vic_consts \<Rightarrow> forcing \<Rightarrow> ('a, 'b) frame \<Rightarrow> eb_args" where
  "frame_args k f fr =
     energy_args k f (RainFall fr) (LakeIce fr) (snow fr) (OldTSurf_l fr) (deltaCC fr)
       (avgcond_l fr) (SWconducted_l fr)"

subsection \<open>Lines 168 to 215: set-up and the energy balance at 0 C\<close>

definition start_frame ::
  "externals \<Rightarrow> vic_consts \<Rightarrow> forcing \<Rightarrow> 'a snow_data_struct_scheme \<Rightarrow>
   'b lake_var_struct_scheme \<Rightarrow> ('a, 'b) frame" where
  "start_frame ext k f snow0 lake0 =
     (let SnowFall' = snowfall f / 1000;
          RainFall' = rainfall f / 1000;
          SnowIce0 = swq snow0 - surf_water snow0;
          LakeIce0 = hice lake0 * RHOICE k / RHO_W k;
          SnowIce1 = SnowIce0 + SnowFall';
          snow1 = snow0\<lparr>surf_water := surf_water snow0 + RainFall'\<rparr>;
          (avgcond', SWc, dCC) =
             icerad ext (net_short f) (hice lake0) (SnowIce1 * RHO_W k / RHOSNOW k);
          snow2 = snow1\<lparr>blowing_flux := 0\<rparr>;
          (Q, c) = CalcIcePackEnergyBalance ext 0
             (energy_args k f RainFall' LakeIce0 snow2 (surf_temp snow0) dCC avgcond' SWc)
             (vapor_flux snow2, blowing_flux snow2, surface_flux snow2);
          snow3 = snow2\<lparr>vapor_flux := c_vapor_flux c, surface_flux := c_surface_flux c\<rparr>
      in \<lparr> snow = snow3, lake = lake0, SnowFall = SnowFall', RainFall = RainFall',
           InitialSwq = swq snow0, InitialIce = LakeIce0, OldTSurf_l = surf_temp snow0,
           SnowIce = SnowIce1, LakeIce = LakeIce0, IceMelt = 0, SnowMelt = 0,
           RefrozenWater = 0, RefreezeEnergy = c_RefreezeEnergy c, melt_energy = 0,
           avgcond_l = avgcond', SWconducted_l = SWc, deltaCC = dCC, Qnet = Q,
           cells = c \<rparr>)"

subsection \<open>Lines 219 to 241: refreezing or melt at 0 C\<close>

definition refreeze_or_melt ::
  "vic_consts \<Rightarrow> forcing \<Rightarrow> ('a, 'b) frame \<Rightarrow> failure + ('a, 'b) frame" where
  "refreeze_or_melt k f fr0 =
     (let fr = fr0\<lparr>snow := (snow fr0)\<lparr>surf_temp := 0\<rparr>\<rparr> in
      if RefreezeEnergy fr \<ge> 0 then
        (let RW0 = RefreezeEnergy fr / (Lf k * RHO_W k) * real_of_int (delta_t f) * SECPHOUR k;
             capped = (RW0 > surf_water (snow fr));
             RW = (if capped then surf_water (snow fr) else RW0);
             RE = (if capped
                   then RW * Lf k * RHO_W k / (real_of_int (delta_t f) * SECPHOUR k)
                   else RefreezeEnergy fr);
             s = (snow fr)\<lparr>swq := swq (snow fr) + RW,
                             surf_water := surf_water (snow fr) - RW\<rparr>
         in if surf_water s \<ge> 0
            then Inr (fr\<lparr>snow := s, RefrozenWater := RW, RefreezeEnergy := RE,
                        melt_energy := melt_energy fr + RE,
                        SnowIce := SnowIce fr + RW, SnowMelt := 0\<rparr>)
            else Inl (Assertion_failed ''snow->surf_water >= 0.0''))
      else
        Inr (fr\<lparr>SnowMelt := \<bar>RefreezeEnergy fr\<bar> / (Lf k * RHO_W k)
                               * real_of_int (delta_t f) * SECPHOUR k,
                  melt_energy := melt_energy fr + RefreezeEnergy fr\<rparr>))"

subsection \<open>Lines 245 to 269: the vapor flux at 0 C\<close>

definition vapor_adjust_iso :: "forcing \<Rightarrow> ('a, 'b) frame \<Rightarrow> ('a, 'b) frame" where
  "vapor_adjust_iso f fr =
     (let s = snow fr; l = lake fr in
      if SnowIce fr + surf_water s + LakeIce fr < - vapor_flux s then
        (let bf = blowing_flux s * (- (SnowIce fr + surf_water s + LakeIce fr) / vapor_flux s);
             total = SnowIce fr + surf_water s + LakeIce fr
         in fr\<lparr>snow := s\<lparr>blowing_flux := bf, vapor_flux := - total,
                           surface_flux := - total - bf\<rparr>,
                lake := l\<lparr>volume := volume l - LakeIce fr * fracprv f * surface l 0\<rparr>,
                LakeIce := 0, SnowIce := 0\<rparr>)
      else if SnowIce fr + surf_water s < - vapor_flux s
              \<and> SnowIce fr + surf_water s + LakeIce fr > - vapor_flux s then
        fr\<lparr>LakeIce := LakeIce fr + (vapor_flux s + SnowIce fr),
            lake := l\<lparr>volume := volume l
                          + surface l 0 * fracprv f * (vapor_flux s + SnowIce fr)\<rparr>,
            SnowIce := 0\<rparr>
      else if - vapor_flux s > surf_water s then
        fr\<lparr>SnowIce := SnowIce fr + (vapor_flux s + surf_water s),
            snow := s\<lparr>surf_water := 0\<rparr>\<rparr>
      else
        fr\<lparr>snow := s\<lparr>surf_water := surf_water s + vapor_flux s\<rparr>\<rparr>)"

subsection \<open>Lines 273 to 291: the melt against snow ice, then lake ice\<close>

definition melt_partition :: "('a, 'b) frame \<Rightarrow> ('a, 'b) frame" where
  "melt_partition fr =
     (let s = snow fr in
      if SnowMelt fr < SnowIce fr then
        fr\<lparr>snow := s\<lparr>surf_water := surf_water s + SnowMelt fr\<rparr>,
            SnowIce := SnowIce fr - SnowMelt fr\<rparr>
      else if SnowMelt fr \<ge> SnowIce fr \<and> SnowMelt fr < SnowIce fr + LakeIce fr then
        fr\<lparr>snow := s\<lparr>surf_water := surf_water s + SnowIce fr\<rparr>,
            LakeIce := LakeIce fr - (SnowMelt fr - SnowIce fr),
            IceMelt := SnowMelt fr - SnowIce fr,
            SnowIce := 0\<rparr>
      else
        fr\<lparr>SnowMelt := SnowIce fr + LakeIce fr,
            snow := s\<lparr>surf_water := surf_water s + SnowIce fr\<rparr>,
            IceMelt := LakeIce fr,
            SnowIce := 0,
            LakeIce := 0\<rparr>)"

definition isothermal_branch ::
  "vic_consts \<Rightarrow> forcing \<Rightarrow> ('a, 'b) frame \<Rightarrow> failure + ('a, 'b) frame" where
  "isothermal_branch k f fr =
     (case refreeze_or_melt k f fr of
        Inl e \<Rightarrow> Inl e
      | Inr fr1 \<Rightarrow> Inr (melt_partition (vapor_adjust_iso f fr1)))"

subsection \<open>Lines 298 to 380: the surface below freezing\<close>

definition freeze_surface_water ::
  "vic_consts \<Rightarrow> forcing \<Rightarrow> ('a, 'b) frame \<Rightarrow> ('a, 'b) frame" where
  "freeze_surface_water k f fr =
     (let s = snow fr in
      fr\<lparr>SnowMelt := 0,
          SnowIce := SnowIce fr + surf_water s,
          melt_energy := melt_energy fr
             + surf_water s * Lf k * RHO_W k / (real_of_int (delta_t f) * SECPHOUR k),
          RefrozenWater := surf_water s,
          snow := s\<lparr>surf_water := 0\<rparr>\<rparr>)"

definition vapor_adjust_sub :: "forcing \<Rightarrow> ('a, 'b) frame \<Rightarrow> ('a, 'b) frame" where
  "vapor_adjust_sub f fr =
     (let s = snow fr; l = lake fr in
      if SnowIce fr + LakeIce fr < - vapor_flux s then
        (let bf = blowing_flux s * (- (SnowIce fr + LakeIce fr) / vapor_flux s);
             total = SnowIce fr + LakeIce fr
         in fr\<lparr>snow := s\<lparr>blowing_flux := bf, vapor_flux := - total,
                           surface_flux := - total - bf\<rparr>,
                lake := l\<lparr>volume := volume l - surface l 0 * fracprv f * LakeIce fr\<rparr>,
                LakeIce := 0, SnowIce := 0\<rparr>)
      else if SnowIce fr < - vapor_flux s \<and> SnowIce fr + LakeIce fr > - vapor_flux s then
        fr\<lparr>LakeIce := LakeIce fr + (vapor_flux s + SnowIce fr),
            lake := l\<lparr>volume := volume l
                          + surface l 0 * fracprv f * (vapor_flux s + SnowIce fr)\<rparr>,
            SnowIce := 0\<rparr>
      else if SnowIce fr > 0 then
        fr\<lparr>SnowIce := SnowIce fr + vapor_flux s\<rparr>
      else
        fr\<lparr>lake := l\<lparr>volume := volume l + surface l 0 * fracprv f * vapor_flux s\<rparr>\<rparr>)"

text \<open>
  Lines 298 to 312: the solver is seeded with the old surface temperature less
  \<^verbatim>\<open>SNOW_DT\<close> and bounded by 0; its result is stored in \<^verbatim>\<open>snow->surf_temp\<close>.
\<close>

definition solve_surface ::
  "externals \<Rightarrow> vic_consts \<Rightarrow> forcing \<Rightarrow> ('a, 'b) frame \<Rightarrow> string \<times> ('a, 'b) frame" where
  "solve_surface ext k f fr =
     (let (T, ErrorString, c1) =
            root_brent ext (surf_temp (snow fr) - SNOW_DT k) 0 (frame_args k f fr) (cells fr)
      in (ErrorString, fr\<lparr>snow := (snow fr)\<lparr>surf_temp := T\<rparr>, cells := c1\<rparr>))"

text \<open>Lines 328 to 343: the energy balance once more, at the solved temperature.\<close>

definition reevaluate ::
  "externals \<Rightarrow> vic_consts \<Rightarrow> forcing \<Rightarrow> ('a, 'b) frame \<Rightarrow> ('a, 'b) frame" where
  "reevaluate ext k f fr =
     (let (Q, c2) = CalcIcePackEnergyBalance ext (surf_temp (snow fr)) (frame_args k f fr)
                      (c_vapor_flux (cells fr), c_blowing_flux (cells fr),
                       c_surface_flux (cells fr))
      in fr\<lparr>Qnet := Q, cells := c2, RefreezeEnergy := c_RefreezeEnergy c2,
            snow := (snow fr)\<lparr>vapor_flux := c_vapor_flux c2,
                              surface_flux := c_surface_flux c2\<rparr>\<rparr>)"

text \<open>
  Line 314: a solved temperature at or under -9998 goes to the dump, which ends the
  process; the rest of the branch runs only above -9998.
\<close>

definition subfreezing_branch ::
  "externals \<Rightarrow> vic_consts \<Rightarrow> forcing \<Rightarrow> ('a, 'b) frame \<Rightarrow>
   ext_call list \<times> (failure + ('a, 'b) frame)" where
  "subfreezing_branch ext k f fr =
     (let lower = surf_temp (snow fr) - SNOW_DT k;
          (ErrorString, fr1) = solve_surface ext k f fr;
          T = surf_temp (snow fr1)
      in if T \<le> - 9998 then
           ([Call_root_brent lower 0, Call_ErrorIcePackEnergyBalance T],
            Inl (Exit (ErrorIcePackEnergyBalance T (frame_args k f fr1) (cells fr1)
                         ErrorString)))
         else
           ([Call_root_brent lower 0, Call_CalcIcePackEnergyBalance T],
            Inr (vapor_adjust_sub f (freeze_surface_water k f (reevaluate ext k f fr1)))))"

subsection \<open>The branch on the net energy at 0 C\<close>

definition ice_melt_frame ::
  "externals \<Rightarrow> vic_consts \<Rightarrow> forcing \<Rightarrow> 'a snow_data_struct_scheme \<Rightarrow>
   'b lake_var_struct_scheme \<Rightarrow> ext_call list \<times> (failure + ('a, 'b) frame)" where
  "ice_melt_frame ext k f snow0 lake0 =
     (let fr = start_frame ext k f snow0 lake0 in
      if Qnet fr = 0 then
        ([Call_icerad, Call_CalcIcePackEnergyBalance 0], isothermal_branch k f fr)
      else
        (let (calls, r) = subfreezing_branch ext k f fr
         in ([Call_icerad, Call_CalcIcePackEnergyBalance 0] @ calls, r)))"

subsection \<open>Lines 387 to 437: liquid water cap, update, mass balance, results\<close>

record ('a, 'b) ice_melt_result =
  snow_out :: "'a snow_data_struct_scheme"
  lake_out :: "'b lake_var_struct_scheme"
  melt :: real
  save_advection :: real
  save_deltaCC :: real
  save_SnowFlux :: real
  save_latent :: real
  save_sensible :: real
  save_Qnet :: real
  save_refreeze_energy :: real
  save_LWnet :: real

definition MaxLiquidWater :: "vic_consts \<Rightarrow> ('a, 'b) frame \<Rightarrow> real" where
  "MaxLiquidWater k fr = LIQUID_WATER_CAPACITY k * SnowIce fr"

definition finish :: "vic_consts \<Rightarrow> ('a, 'b) frame \<Rightarrow> ('a, 'b) ice_melt_result" where
  "finish k fr =
     (let s = snow fr;
          over = (surf_water s > MaxLiquidWater k fr);
          melt0 = (if over then surf_water s - MaxLiquidWater k fr else 0);
          s1 = (if over then s\<lparr>surf_water := MaxLiquidWater k fr\<rparr> else s);
          s2 = s1\<lparr>swq := SnowIce fr + surf_water s1\<rparr>;
          l1 = (lake fr)\<lparr>hice := LakeIce fr * RHO_W k / RHOICE k\<rparr>;
          l2 = (if hice l1 \<le> 0 then l1\<lparr>hice := 0, fraci := 0\<rparr> else l1);
          MassBalanceError =
             (InitialSwq fr - swq s2) + (InitialIce fr - LakeIce fr)
             + (RainFall fr + SnowFall fr) - IceMelt fr - melt0 + vapor_flux s2;
          s3 = s2\<lparr>mass_error := MassBalanceError, vapor_flux := vapor_flux s2 * (- 1)\<rparr>
      in \<lparr> snow_out = s3, lake_out = l2, melt = melt0 * 1000,
           save_advection = c_advection (cells fr), save_deltaCC = deltaCC fr,
           save_SnowFlux = c_SnowFlux (cells fr), save_latent = c_latent_heat (cells fr),
           save_sensible = c_sensible_heat (cells fr), save_Qnet = Qnet fr,
           save_refreeze_energy = c_RefreezeEnergy (cells fr),
           save_LWnet = c_LWnet (cells fr) \<rparr>)"

definition ice_melt ::
  "externals \<Rightarrow> vic_consts \<Rightarrow> forcing \<Rightarrow> 'a snow_data_struct_scheme \<Rightarrow>
   'b lake_var_struct_scheme \<Rightarrow> ext_call list \<times> (failure + ('a, 'b) ice_melt_result)" where
  "ice_melt ext k f snow0 lake0 =
     (case ice_melt_frame ext k f snow0 lake0 of
        (calls, Inl e) \<Rightarrow> (calls, Inl e)
      | (calls, Inr fr) \<Rightarrow> (calls, Inr (finish k fr)))"

subsection \<open>Observations on a run\<close>

fun is_root_brent :: "ext_call \<Rightarrow> bool" where
  "is_root_brent (Call_root_brent lower upper) = True"
| "is_root_brent _ = False"

definition solver_invoked :: "ext_call list \<Rightarrow> bool" where
  "solver_invoked calls = list_ex is_root_brent calls"

fun is_exit :: "failure + 'r \<Rightarrow> bool" where
  "is_exit (Inl (Exit d)) = True"
| "is_exit _ = False"

text \<open>The result of a run that returns.\<close>

definition returned :: "ext_call list \<times> (failure + 'r) \<Rightarrow> 'r option" where
  "returned run = (case snd run of Inr r \<Rightarrow> Some r | Inl e \<Rightarrow> None)"

text \<open>What the step leaves untouched in the two structures.\<close>

definition same_snow_rest ::
  "'a snow_data_struct_scheme \<Rightarrow> 'a snow_data_struct_scheme \<Rightarrow> bool" where
  "same_snow_rest s s' =
     (pack_water s' = pack_water s \<and> pack_temp s' = pack_temp s
      \<and> snow_data_struct.more s' = snow_data_struct.more s)"

definition same_lake_rest ::
  "'b lake_var_struct_scheme \<Rightarrow> 'b lake_var_struct_scheme \<Rightarrow> bool" where
  "same_lake_rest l l' =
     (surface l' = surface l \<and> lake_var_struct.more l' = lake_var_struct.more l)"

definition same_rest ::
  "'a snow_data_struct_scheme \<Rightarrow> 'b lake_var_struct_scheme \<Rightarrow> ('a, 'b) frame \<Rightarrow> bool" where
  "same_rest s l fr = (same_snow_rest s (snow fr) \<and> same_lake_rest l (lake fr))"

subsection \<open>Named points of a run\<close>

text \<open>
  The frame at line 243 (after the refreeze or melt computation at 0 C, before the vapor
  flux is applied), at line 271 (before the melt is partitioned) and at line 357 (below
  freezing, after the surface water has been frozen, before the vapor flux is applied).
  \<open>refreeze_or_melt\<close> always returns a frame (lemma \<open>refreeze_total\<close>), so the second
  case of \<open>before_vapor_iso\<close> is never taken.
\<close>

definition before_vapor_iso ::
  "externals \<Rightarrow> vic_consts \<Rightarrow> forcing \<Rightarrow> 'a snow_data_struct_scheme \<Rightarrow>
   'b lake_var_struct_scheme \<Rightarrow> ('a, 'b) frame" where
  "before_vapor_iso ext k f s l =
     (case refreeze_or_melt k f (start_frame ext k f s l) of
        Inr fr \<Rightarrow> fr
      | Inl e \<Rightarrow> start_frame ext k f s l)"

definition before_partition ::
  "externals \<Rightarrow> vic_consts \<Rightarrow> forcing \<Rightarrow> 'a snow_data_struct_scheme \<Rightarrow>
   'b lake_var_struct_scheme \<Rightarrow> ('a, 'b) frame" where
  "before_partition ext k f s l = vapor_adjust_iso f (before_vapor_iso ext k f s l)"

definition solved ::
  "externals \<Rightarrow> vic_consts \<Rightarrow> forcing \<Rightarrow> 'a snow_data_struct_scheme \<Rightarrow>
   'b lake_var_struct_scheme \<Rightarrow> ('a, 'b) frame" where
  "solved ext k f s l = snd (solve_surface ext k f (start_frame ext k f s l))"

definition before_freeze ::
  "externals \<Rightarrow> vic_consts \<Rightarrow> forcing \<Rightarrow> 'a snow_data_struct_scheme \<Rightarrow>
   'b lake_var_struct_scheme \<Rightarrow> ('a, 'b) frame" where
  "before_freeze ext k f s l = reevaluate ext k f (solved ext k f s l)"

definition before_vapor_sub ::
  "externals \<Rightarrow> vic_consts \<Rightarrow> forcing \<Rightarrow> 'a snow_data_struct_scheme \<Rightarrow>
   'b lake_var_struct_scheme \<Rightarrow> ('a, 'b) frame" where
  "before_vapor_sub ext k f s l = freeze_surface_water k f (before_freeze ext k f s l)"

text \<open>The net energy at 0 C and the temperature the solver returns.\<close>

definition Qnet_at_freezing ::
  "externals \<Rightarrow> vic_consts \<Rightarrow> forcing \<Rightarrow> 'a snow_data_struct_scheme \<Rightarrow>
   'b lake_var_struct_scheme \<Rightarrow> real" where
  "Qnet_at_freezing ext k f s l = Qnet (start_frame ext k f s l)"

definition solver_value ::
  "externals \<Rightarrow> vic_consts \<Rightarrow> forcing \<Rightarrow> 'a snow_data_struct_scheme \<Rightarrow>
   'b lake_var_struct_scheme \<Rightarrow> real" where
  "solver_value ext k f s l = surf_temp (snow (solved ext k f s l))"

text \<open>
  The mass the accounting holds (snow ice, surface liquid, lake ice and the ice melt
  handed to the lake) and the mass it was given.
\<close>

definition stock :: "('a, 'b) frame \<Rightarrow> real" where
  "stock fr = SnowIce fr + surf_water (snow fr) + LakeIce fr + IceMelt fr"

definition supplied :: "('a, 'b) frame \<Rightarrow> real" where
  "supplied fr = InitialSwq fr + InitialIce fr + (RainFall fr + SnowFall fr)"

text \<open>The first test of line 245, and the last branch of lines 375 to 379.\<close>

definition clamped_iso :: "('a, 'b) frame \<Rightarrow> bool" where
  "clamped_iso fr =
     (SnowIce fr + surf_water (snow fr) + LakeIce fr < - vapor_flux (snow fr))"

definition bare_ice_sub :: "('a, 'b) frame \<Rightarrow> bool" where
  "bare_ice_sub fr =
     (\<not> SnowIce fr + LakeIce fr < - vapor_flux (snow fr)
      \<and> \<not> (SnowIce fr < - vapor_flux (snow fr)
           \<and> SnowIce fr + LakeIce fr > - vapor_flux (snow fr))
      \<and> \<not> SnowIce fr > 0)"

text \<open>
  The three reservoirs are not negative; and the two boundaries where the vapor loss
  equals the whole mass held while the snow ice alone falls short of it.
\<close>

definition pack_ok :: "('a, 'b) frame \<Rightarrow> bool" where
  "pack_ok fr = (0 \<le> SnowIce fr \<and> 0 \<le> surf_water (snow fr) \<and> 0 \<le> LakeIce fr)"

definition iso_boundary :: "('a, 'b) frame \<Rightarrow> bool" where
  "iso_boundary fr =
     (SnowIce fr + surf_water (snow fr) < - vapor_flux (snow fr)
      \<and> - vapor_flux (snow fr) = SnowIce fr + surf_water (snow fr) + LakeIce fr)"

definition sub_boundary :: "('a, 'b) frame \<Rightarrow> bool" where
  "sub_boundary fr =
     (0 < SnowIce fr \<and> SnowIce fr < - vapor_flux (snow fr)
      \<and> - vapor_flux (snow fr) = SnowIce fr + LakeIce fr)"

subsection \<open>Concrete inputs\<close>

text \<open>
  A forcing, prior states and stand-ins for the external primitives, for evaluating the
  step: the energy balance answers \<open>q\<close> at 0 C (and 0 elsewhere) and leaves the refreeze
  energy \<open>re\<close> and the vapor flux \<open>vf\<close>; the solver answers \<open>rt\<close>.
\<close>

definition forcing_ex :: forcing where
  "forcing_ex =
     \<lparr> z2 = 2, aero_resist = 50, Le = 2500000, delta_t = 1, displacement = 0,
       Z0 = 1 / 1000, surf_atten = 1, rainfall = 0, snowfall = 0, wind = 3, Tcutoff = 0,
       air_temp = - 5, net_short = 0, longwave = 250, density = 12 / 10, pressure = 100,
       vpd = 1 / 10, vp = 3 / 10, fracprv = 1 \<rparr>"

definition cells_ex :: "real \<Rightarrow> real \<Rightarrow> eb_cells" where
  "cells_ex re vf =
     \<lparr> c_RefreezeEnergy = re, c_vapor_flux = vf, c_blowing_flux = 0, c_surface_flux = vf,
       c_advection = 0, c_SnowFlux = 0, c_latent_heat = 0, c_sensible_heat = 0,
       c_LWnet = 0 \<rparr>"

definition externals_ex :: "real \<Rightarrow> real \<Rightarrow> real \<Rightarrow> real \<Rightarrow> externals" where
  "externals_ex q re vf rt =
     \<lparr> icerad = (\<lambda>sw h d. (0, 0, 0)),
       IceEnergyBalance = (\<lambda>T a v. (if T = 0 then q else 0, cells_ex re vf)),
       root_brent = (\<lambda>lower upper a c. (rt, ''no root'', c)) \<rparr>"

definition snow_ex :: "real \<Rightarrow> real \<Rightarrow> snow_data_struct" where
  "snow_ex q w =
     \<lparr> swq = q, surf_water = w, surf_temp = - 1, pack_water = 7, pack_temp = - 2,
       vapor_flux = 0, blowing_flux = 0, surface_flux = 0, mass_error = 0 \<rparr>"

definition lake_ex :: "real \<Rightarrow> lake_var_struct" where
  "lake_ex h = \<lparr> hice = h, fraci = 1, volume = 1000, surface = (\<lambda>i. 10) \<rparr>"

section \<open>Basic facts\<close>

subsection \<open>The concrete inputs\<close>

lemma externals_ex_sel:
  "icerad (externals_ex q re vf rt) = (\<lambda>sw h d. (0, 0, 0))"
  "IceEnergyBalance (externals_ex q re vf rt) =
     (\<lambda>T a v. (if T = 0 then q else 0, cells_ex re vf))"
  "root_brent (externals_ex q re vf rt) = (\<lambda>lower upper a c. (rt, ''no root'', c))"
  by (simp_all add: externals_ex_def)

lemma vic_sel:
  "RHOICE vic = 917" "RHO_W vic = 1000" "RHOSNOW vic = 250" "Lf vic = 333700"
  "SECPHOUR vic = 3600" "LIQUID_WATER_CAPACITY vic = 35 / 1000" "SNOW_DT vic = 5"
  by (simp_all add: vic_def)

lemma forcing_ex_sel:
  "delta_t forcing_ex = 1" "rainfall forcing_ex = 0" "snowfall forcing_ex = 0"
  "fracprv forcing_ex = 1" "net_short forcing_ex = 0"
  by (simp_all add: forcing_ex_def)

lemma snow_ex_sel:
  "swq (snow_ex a w) = a" "surf_water (snow_ex a w) = w" "surf_temp (snow_ex a w) = - 1"
  "vapor_flux (snow_ex a w) = 0" "blowing_flux (snow_ex a w) = 0"
  "surface_flux (snow_ex a w) = 0" "pack_water (snow_ex a w) = 7"
  "pack_temp (snow_ex a w) = - 2" "mass_error (snow_ex a w) = 0"
  by (simp_all add: snow_ex_def)

lemma lake_ex_sel:
  "hice (lake_ex h) = h" "fraci (lake_ex h) = 1" "volume (lake_ex h) = 1000"
  "surface (lake_ex h) i = 10"
  by (simp_all add: lake_ex_def)

lemmas ex_sel = externals_ex_sel vic_sel forcing_ex_sel snow_ex_sel lake_ex_sel

lemma consts_ok_vic: "consts_ok vic"
  by (simp add: consts_ok_def vic_sel)

lemma start_frame_ex:
  "start_frame (externals_ex q re vf rt) vic forcing_ex (snow_ex a w) (lake_ex h) =
     \<lparr> snow = (snow_ex a w)\<lparr>vapor_flux := vf, surface_flux := vf\<rparr>, lake = lake_ex h,
       SnowFall = 0, RainFall = 0, InitialSwq = a, InitialIce = h * 917 / 1000,
       OldTSurf_l = - 1, SnowIce = a - w, LakeIce = h * 917 / 1000, IceMelt = 0,
       SnowMelt = 0, RefrozenWater = 0, RefreezeEnergy = re, melt_energy = 0,
       avgcond_l = 0, SWconducted_l = 0, deltaCC = 0, Qnet = q, cells = cells_ex re vf \<rparr>"
  by (simp add: start_frame_def ex_sel cells_ex_def Let_def snow_ex_def)

subsection \<open>The set-up\<close>

lemma start_frame_fields:
  "InitialSwq (start_frame ext k f s l) = swq s"
  "InitialIce (start_frame ext k f s l) = hice l * RHOICE k / RHO_W k"
  "RainFall (start_frame ext k f s l) = rainfall f / 1000"
  "SnowFall (start_frame ext k f s l) = snowfall f / 1000"
  "SnowIce (start_frame ext k f s l) = swq s - surf_water s + snowfall f / 1000"
  "LakeIce (start_frame ext k f s l) = hice l * RHOICE k / RHO_W k"
  "surf_water (snow (start_frame ext k f s l)) = surf_water s + rainfall f / 1000"
  "IceMelt (start_frame ext k f s l) = 0"
  "melt_energy (start_frame ext k f s l) = 0"
  "blowing_flux (snow (start_frame ext k f s l)) = 0"
  "swq (snow (start_frame ext k f s l)) = swq s"
  "surf_temp (snow (start_frame ext k f s l)) = surf_temp s"
  "lake (start_frame ext k f s l) = l"
  by (simp_all add: start_frame_def Let_def split: prod.splits)

text \<open>The assertion of line 232 never fails: the refrozen water is capped first.\<close>

lemma refreeze_total: "\<exists>fr'. refreeze_or_melt k f fr = Inr fr'"
  by (simp add: refreeze_or_melt_def Let_def)

lemma before_vapor_iso_eq:
  "refreeze_or_melt k f (start_frame ext k f s l) = Inr (before_vapor_iso ext k f s l)"
  using refreeze_total [of k f "start_frame ext k f s l"]
  by (auto simp add: before_vapor_iso_def)

subsection \<open>The two branches\<close>

lemma isothermal_frame:
  "Qnet_at_freezing ext k f s l = 0 \<Longrightarrow>
   ice_melt_frame ext k f s l =
     ([Call_icerad, Call_CalcIcePackEnergyBalance 0],
      Inr (melt_partition (before_partition ext k f s l)))"
  by (simp add: ice_melt_frame_def Qnet_at_freezing_def isothermal_branch_def
      before_vapor_iso_eq before_partition_def Let_def)

lemma subfreezing_frame:
  "Qnet_at_freezing ext k f s l \<noteq> 0 \<Longrightarrow>
   ice_melt_frame ext k f s l =
     (if solver_value ext k f s l \<le> - 9998 then
        ([Call_icerad, Call_CalcIcePackEnergyBalance 0,
          Call_root_brent (surf_temp s - SNOW_DT k) 0,
          Call_ErrorIcePackEnergyBalance (solver_value ext k f s l)],
         Inl (Exit (ErrorPrintIcePackEnergyBalance (solver_value ext k f s l)
                (frame_args k f (solved ext k f s l)) (cells (solved ext k f s l))
                (fst (solve_surface ext k f (start_frame ext k f s l))))))
      else
        ([Call_icerad, Call_CalcIcePackEnergyBalance 0,
          Call_root_brent (surf_temp s - SNOW_DT k) 0,
          Call_CalcIcePackEnergyBalance (solver_value ext k f s l)],
         Inr (vapor_adjust_sub f (before_vapor_sub ext k f s l))))"
  by (simp add: ice_melt_frame_def Qnet_at_freezing_def subfreezing_branch_def
      solver_value_def solved_def before_vapor_sub_def before_freeze_def start_frame_fields
      Let_def split: prod.splits)

lemma ice_melt_Inr:
  "ice_melt ext k f s l = (calls, Inr r) \<Longrightarrow>
     \<exists>fr. ice_melt_frame ext k f s l = (calls, Inr fr) \<and> r = finish k fr"
  by (auto simp add: ice_melt_def split: prod.splits sum.splits)

lemma ice_melt_calls: "fst (ice_melt ext k f s l) = fst (ice_melt_frame ext k f s l)"
  by (simp add: ice_melt_def split: prod.splits sum.splits)

lemma ice_melt_snd:
  "snd (ice_melt ext k f s l) = map_sum id (finish k) (snd (ice_melt_frame ext k f s l))"
  by (simp add: ice_melt_def split: prod.splits sum.splits)

lemma solver_invoked_simps:
  "solver_invoked [] = False"
  "solver_invoked (c # cs) = (is_root_brent c \<or> solver_invoked cs)"
  by (simp_all add: solver_invoked_def)

lemma is_exit_map: "is_exit (map_sum id g x) = is_exit x"
  by (cases x rule: is_exit.cases) simp_all

lemma solver_value_eq:
  "solver_value ext k f s l =
     fst (root_brent ext (surf_temp s - SNOW_DT k) 0
            (frame_args k f (start_frame ext k f s l)) (cells (start_frame ext k f s l)))"
  by (simp add: solver_value_def solved_def solve_surface_def start_frame_fields Let_def
      split: prod.splits)

lemma Qnet_ex:
  "Qnet_at_freezing (externals_ex q re vf rt) vic forcing_ex (snow_ex a w) (lake_ex h) = q"
  by (simp add: Qnet_at_freezing_def start_frame_ex)

lemma solver_value_ex:
  "solver_value (externals_ex q re vf rt) vic forcing_ex (snow_ex a w) (lake_ex h) = rt"
  by (simp add: solver_value_eq ex_sel)

subsection \<open>What is left untouched\<close>

lemma same_rest_start: "same_rest s l (start_frame ext k f s l)"
  by (simp add: same_rest_def same_snow_rest_def same_lake_rest_def start_frame_def Let_def
      split: prod.splits)

lemma same_rest_refreeze:
  "same_rest s l fr \<Longrightarrow> refreeze_or_melt k f fr = Inr fr' \<Longrightarrow> same_rest s l fr'"
  by (auto simp add: same_rest_def same_snow_rest_def same_lake_rest_def refreeze_or_melt_def
      Let_def split: if_splits)

lemma same_rest_vapor_iso: "same_rest s l fr \<Longrightarrow> same_rest s l (vapor_adjust_iso f fr)"
  by (simp add: same_rest_def same_snow_rest_def same_lake_rest_def vapor_adjust_iso_def Let_def)

lemma same_rest_partition: "same_rest s l fr \<Longrightarrow> same_rest s l (melt_partition fr)"
  by (simp add: same_rest_def same_snow_rest_def same_lake_rest_def melt_partition_def Let_def)

lemma same_rest_solve: "same_rest s l fr \<Longrightarrow> same_rest s l (snd (solve_surface ext k f fr))"
  by (simp add: same_rest_def same_snow_rest_def same_lake_rest_def solve_surface_def Let_def
      split: prod.splits)

lemma same_rest_reevaluate: "same_rest s l fr \<Longrightarrow> same_rest s l (reevaluate ext k f fr)"
  by (simp add: same_rest_def same_snow_rest_def same_lake_rest_def reevaluate_def Let_def
      split: prod.splits)

lemma same_rest_freeze: "same_rest s l fr \<Longrightarrow> same_rest s l (freeze_surface_water k f fr)"
  by (simp add: same_rest_def same_snow_rest_def same_lake_rest_def freeze_surface_water_def
      Let_def)

lemma same_rest_vapor_sub: "same_rest s l fr \<Longrightarrow> same_rest s l (vapor_adjust_sub f fr)"
  by (simp add: same_rest_def same_snow_rest_def same_lake_rest_def vapor_adjust_sub_def Let_def)

lemma same_rest_frame:
  assumes "ice_melt_frame ext k f s l = (calls, Inr fr)"
  shows "same_rest s l fr"
proof (cases "Qnet_at_freezing ext k f s l = 0")
  case True
  with assms have "fr = melt_partition (before_partition ext k f s l)"
    by (simp add: isothermal_frame)
  moreover have "same_rest s l (before_vapor_iso ext k f s l)"
    using same_rest_start before_vapor_iso_eq by (rule same_rest_refreeze)
  ultimately show ?thesis
    by (simp add: before_partition_def same_rest_vapor_iso same_rest_partition)
next
  case False
  with assms have "fr = vapor_adjust_sub f (before_vapor_sub ext k f s l)"
    by (simp add: subfreezing_frame split: if_splits)
  then show ?thesis
    by (simp add: before_vapor_sub_def before_freeze_def solved_def same_rest_start
        same_rest_solve same_rest_reevaluate same_rest_freeze same_rest_vapor_sub)
qed

lemma same_rest_finish:
  "same_rest s l fr \<Longrightarrow>
     same_snow_rest s (snow_out (finish k fr)) \<and> same_lake_rest l (lake_out (finish k fr))"
  by (simp add: same_rest_def same_snow_rest_def same_lake_rest_def finish_def Let_def)

lemma snow_rest_eq:
  "same_snow_rest s s' \<Longrightarrow>
   s' = s\<lparr>surf_temp := surf_temp s', surf_water := surf_water s', swq := swq s',
         vapor_flux := vapor_flux s', blowing_flux := blowing_flux s',
         surface_flux := surface_flux s', mass_error := mass_error s'\<rparr>"
  by (simp add: same_snow_rest_def snow_data_struct.equality)

lemma lake_rest_eq:
  "same_lake_rest l l' \<Longrightarrow> l' = l\<lparr>hice := hice l', fraci := fraci l', volume := volume l'\<rparr>"
  by (simp add: same_lake_rest_def lake_var_struct.equality)


lemma ice_melt_iso_ex:
  "ice_melt (externals_ex 0 re vf rt) vic forcing_ex (snow_ex a w) (lake_ex h) =
    ([Call_icerad, Call_CalcIcePackEnergyBalance 0],
     Inr (finish vic (melt_partition
        (before_partition (externals_ex 0 re vf rt) vic forcing_ex (snow_ex a w) (lake_ex h)))))"
  by (simp add: ice_melt_def isothermal_frame Qnet_ex)


subsection \<open>The liquid water cap and the results\<close>

lemma finish_fields:
  "swq (snow_out (finish k fr)) = SnowIce fr + surf_water (snow_out (finish k fr))"
  "surf_water (snow_out (finish k fr)) = min (surf_water (snow fr)) (MaxLiquidWater k fr)"
  "melt (finish k fr) = max 0 (surf_water (snow fr) - MaxLiquidWater k fr) * 1000"
  "vapor_flux (snow_out (finish k fr)) = - vapor_flux (snow fr)"
  "hice (lake_out (finish k fr)) = max 0 (LakeIce fr * RHO_W k / RHOICE k)"
  by (simp_all add: finish_def Let_def)


subsection \<open>The mass held and the mass given\<close>

lemma stock_start: "stock (start_frame ext k f s l) = supplied (start_frame ext k f s l)"
  by (simp add: stock_def supplied_def start_frame_fields)

lemma refreeze_stock:
  "refreeze_or_melt k f fr = Inr fr' \<Longrightarrow>
     stock fr' = stock fr \<and> supplied fr' = supplied fr \<and> IceMelt fr' = IceMelt fr"
  by (auto simp add: refreeze_or_melt_def stock_def supplied_def Let_def split: if_splits)

lemma vapor_iso_stock:
  "stock (vapor_adjust_iso f fr) =
     stock fr + vapor_flux (snow (vapor_adjust_iso f fr))
       + (if clamped_iso fr then surf_water (snow fr) else 0)"
  "supplied (vapor_adjust_iso f fr) = supplied fr"
  "IceMelt (vapor_adjust_iso f fr) = IceMelt fr"
  by (simp_all add: vapor_adjust_iso_def stock_def supplied_def clamped_iso_def Let_def)

lemma partition_stock:
  "IceMelt fr = 0 \<Longrightarrow> stock (melt_partition fr) = stock fr"
  "supplied (melt_partition fr) = supplied fr"
  "vapor_flux (snow (melt_partition fr)) = vapor_flux (snow fr)"
  by (simp_all add: melt_partition_def stock_def supplied_def Let_def)

lemma solve_stock:
  "stock (snd (solve_surface ext k f fr)) = stock fr"
  "supplied (snd (solve_surface ext k f fr)) = supplied fr"
  by (simp_all add: solve_surface_def stock_def supplied_def Let_def split: prod.splits)

lemma reevaluate_stock:
  "stock (reevaluate ext k f fr) = stock fr"
  "supplied (reevaluate ext k f fr) = supplied fr"
  by (simp_all add: reevaluate_def stock_def supplied_def Let_def split: prod.splits)

lemma freeze_stock:
  "stock (freeze_surface_water k f fr) = stock fr"
  "supplied (freeze_surface_water k f fr) = supplied fr"
  "vapor_flux (snow (freeze_surface_water k f fr)) = vapor_flux (snow fr)"
  by (simp_all add: freeze_surface_water_def stock_def supplied_def Let_def)

lemma vapor_sub_stock:
  "stock (vapor_adjust_sub f fr) =
     stock fr + vapor_flux (snow (vapor_adjust_sub f fr))
       - (if bare_ice_sub fr then vapor_flux (snow fr) else 0)"
  "supplied (vapor_adjust_sub f fr) = supplied fr"
  by (simp_all add: vapor_adjust_sub_def stock_def supplied_def bare_ice_sub_def Let_def)

lemma vapor_sub_bare:
  "bare_ice_sub fr \<Longrightarrow> vapor_flux (snow (vapor_adjust_sub f fr)) = vapor_flux (snow fr)"
  by (simp add: vapor_adjust_sub_def bare_ice_sub_def Let_def)

lemma finish_mass_error:
  "mass_error (snow_out (finish k fr)) = supplied fr - stock fr + vapor_flux (snow fr)"
  by (simp add: finish_def stock_def supplied_def Let_def)

lemma finish_formula:
  "mass_error (snow_out (finish k fr)) =
     (InitialSwq fr - swq (snow_out (finish k fr))) + (InitialIce fr - LakeIce fr)
      + (RainFall fr + SnowFall fr) - IceMelt fr - melt (finish k fr) / 1000
      + (- vapor_flux (snow_out (finish k fr)))"
  by (simp add: finish_def Let_def)

lemma before_vapor_iso_stock:
  "stock (before_vapor_iso ext k f s l) = supplied (before_vapor_iso ext k f s l)"
  "IceMelt (before_vapor_iso ext k f s l) = 0"
  using refreeze_stock [OF before_vapor_iso_eq [of k f ext s l]]
  by (simp_all add: stock_start start_frame_fields)

lemma before_vapor_sub_stock:
  "stock (before_vapor_sub ext k f s l) = supplied (before_vapor_sub ext k f s l)"
  by (simp add: before_vapor_sub_def before_freeze_def solved_def freeze_stock
      reevaluate_stock solve_stock stock_start)

lemma refreeze_initial:
  "refreeze_or_melt k f fr = Inr fr' \<Longrightarrow>
     InitialSwq fr' = InitialSwq fr \<and> InitialIce fr' = InitialIce fr
     \<and> RainFall fr' = RainFall fr \<and> SnowFall fr' = SnowFall fr"
  by (auto simp add: refreeze_or_melt_def Let_def split: if_splits)

lemma initial_kept:
  assumes "ice_melt_frame ext k f s l = (calls, Inr fr)"
  shows "InitialSwq fr = swq s \<and> InitialIce fr = hice l * RHOICE k / RHO_W k
    \<and> RainFall fr = rainfall f / 1000 \<and> SnowFall fr = snowfall f / 1000"
proof (cases "Qnet_at_freezing ext k f s l = 0")
  case True
  with assms have fr: "fr = melt_partition (before_partition ext k f s l)"
    by (simp add: isothermal_frame)
  have "InitialSwq (before_vapor_iso ext k f s l) = swq s
      \<and> InitialIce (before_vapor_iso ext k f s l) = hice l * RHOICE k / RHO_W k
      \<and> RainFall (before_vapor_iso ext k f s l) = rainfall f / 1000
      \<and> SnowFall (before_vapor_iso ext k f s l) = snowfall f / 1000"
    using refreeze_initial [OF before_vapor_iso_eq [of k f ext s l]]
    by (simp add: start_frame_fields)
  then show ?thesis
    by (simp add: fr before_partition_def melt_partition_def vapor_adjust_iso_def Let_def)
next
  case False
  with assms have fr: "fr = vapor_adjust_sub f (before_vapor_sub ext k f s l)"
    by (simp add: subfreezing_frame split: if_splits)
  show ?thesis
    by (simp add: fr before_vapor_sub_def before_freeze_def solved_def vapor_adjust_sub_def
        freeze_surface_water_def reevaluate_def solve_surface_def start_frame_fields Let_def
        split: prod.splits)
qed


lemma ice_melt_sub_ex:
  "q \<noteq> 0 \<Longrightarrow> - 9998 < rt \<Longrightarrow>
   ice_melt (externals_ex q re vf rt) vic forcing_ex (snow_ex a w) (lake_ex h) =
    ([Call_icerad, Call_CalcIcePackEnergyBalance 0, Call_root_brent (- 6) 0,
      Call_CalcIcePackEnergyBalance rt],
     Inr (finish vic (vapor_adjust_sub forcing_ex
        (before_vapor_sub (externals_ex q re vf rt) vic forcing_ex (snow_ex a w) (lake_ex h)))))"
  by (simp add: ice_melt_def subfreezing_frame Qnet_ex solver_value_ex ex_sel)

lemma returned_iso_ex:
  "returned (ice_melt (externals_ex 0 re vf rt) vic forcing_ex (snow_ex a w) (lake_ex h)) =
     Some (finish vic (melt_partition
        (before_partition (externals_ex 0 re vf rt) vic forcing_ex (snow_ex a w) (lake_ex h))))"
  by (simp add: returned_def ice_melt_iso_ex)

lemma returned_sub_ex:
  "q \<noteq> 0 \<Longrightarrow> - 9998 < rt \<Longrightarrow>
   returned (ice_melt (externals_ex q re vf rt) vic forcing_ex (snow_ex a w) (lake_ex h)) =
     Some (finish vic (vapor_adjust_sub forcing_ex
        (before_vapor_sub (externals_ex q re vf rt) vic forcing_ex (snow_ex a w) (lake_ex h))))"
  by (simp add: returned_def ice_melt_sub_ex)

lemma before_vapor_iso_ex:
  assumes "0 \<le> w"
  shows "SnowIce (before_vapor_iso (externals_ex q 0 vf rt) vic forcing_ex (snow_ex a w) (lake_ex h))
     = a - w"
  "surf_water (snow (before_vapor_iso (externals_ex q 0 vf rt) vic forcing_ex (snow_ex a w)
     (lake_ex h))) = w"
  "LakeIce (before_vapor_iso (externals_ex q 0 vf rt) vic forcing_ex (snow_ex a w) (lake_ex h))
     = h * 917 / 1000"
  "vapor_flux (snow (before_vapor_iso (externals_ex q 0 vf rt) vic forcing_ex (snow_ex a w)
     (lake_ex h))) = vf"
  "SnowMelt (before_vapor_iso (externals_ex q 0 vf rt) vic forcing_ex (snow_ex a w) (lake_ex h))
     = 0"
  "lake (before_vapor_iso (externals_ex q 0 vf rt) vic forcing_ex (snow_ex a w) (lake_ex h))
     = lake_ex h"
  using assms
  by (simp_all add: before_vapor_iso_def refreeze_or_melt_def start_frame_ex ex_sel Let_def)

lemma before_vapor_sub_ex:
  "SnowIce (before_vapor_sub (externals_ex q re vf rt) vic forcing_ex (snow_ex a w) (lake_ex h))
     = a"
  "surf_water (snow (before_vapor_sub (externals_ex q re vf rt) vic forcing_ex (snow_ex a w)
     (lake_ex h))) = 0"
  "LakeIce (before_vapor_sub (externals_ex q re vf rt) vic forcing_ex (snow_ex a w) (lake_ex h))
     = h * 917 / 1000"
  "vapor_flux (snow (before_vapor_sub (externals_ex q re vf rt) vic forcing_ex (snow_ex a w)
     (lake_ex h))) = vf"
  "lake (before_vapor_sub (externals_ex q re vf rt) vic forcing_ex (snow_ex a w) (lake_ex h))
     = lake_ex h"
  by (simp_all add: before_vapor_sub_def before_freeze_def solved_def reevaluate_def
      solve_surface_def freeze_surface_water_def start_frame_ex ex_sel cells_ex_def Let_def)


text \<open>
  Where the first test of line 245 holds, the surface water is counted in the clamped vapor
  flux and is still in the pack afterwards: the diagnostic is then minus that water.
\<close>

lemma clamped_iso_residual:
  assumes "ice_melt ext k f s l = (calls, Inr r)"
    and "Qnet_at_freezing ext k f s l = 0"
    and "clamped_iso (before_vapor_iso ext k f s l)"
  shows "mass_error (snow_out r) = - surf_water (snow (before_vapor_iso ext k f s l))"
proof -
  from assms(1) obtain fr where fr: "ice_melt_frame ext k f s l = (calls, Inr fr)"
    and r: "r = finish k fr"
    using ice_melt_Inr by blast
  from assms(2) fr have "fr = melt_partition (before_partition ext k f s l)"
    by (simp add: isothermal_frame)
  then show ?thesis using assms(3)
    by (simp add: r finish_mass_error partition_stock before_partition_def vapor_iso_stock
        before_vapor_iso_stock)
qed

subsection \<open>Facts for the branches\<close>

lemma before_freeze_fields:
  "SnowIce (before_freeze ext k f s l) = swq s - surf_water s + snowfall f / 1000"
  "surf_water (snow (before_freeze ext k f s l)) = surf_water s + rainfall f / 1000"
  "melt_energy (before_freeze ext k f s l) = 0"
  "LakeIce (before_freeze ext k f s l) = hice l * RHOICE k / RHO_W k"
  by (simp_all add: before_freeze_def solved_def reevaluate_def solve_surface_def
      start_frame_fields Let_def split: prod.splits)


lemma vapor_iso_clamped:
  assumes "SnowIce fr + surf_water (snow fr) + LakeIce fr < - vapor_flux (snow fr)"
  shows "vapor_flux (snow (vapor_adjust_iso f fr))
           = - (SnowIce fr + surf_water (snow fr) + LakeIce fr)"
    "blowing_flux (snow (vapor_adjust_iso f fr))
           = blowing_flux (snow fr)
             * (- (SnowIce fr + surf_water (snow fr) + LakeIce fr) / vapor_flux (snow fr))"
    "surface_flux (snow (vapor_adjust_iso f fr))
           = - (SnowIce fr + surf_water (snow fr) + LakeIce fr)
             - blowing_flux (snow (vapor_adjust_iso f fr))"
    "SnowIce (vapor_adjust_iso f fr) = 0"
    "LakeIce (vapor_adjust_iso f fr) = 0"
    "surf_water (snow (vapor_adjust_iso f fr)) = surf_water (snow fr)"
    "volume (lake (vapor_adjust_iso f fr))
           = volume (lake fr) - LakeIce fr * fracprv f * surface (lake fr) 0"
  using assms by (simp_all add: vapor_adjust_iso_def Let_def)

lemma vapor_iso_lake:
  assumes "SnowIce fr + surf_water (snow fr) < - vapor_flux (snow fr)"
    and "- vapor_flux (snow fr) < SnowIce fr + surf_water (snow fr) + LakeIce fr"
  shows "LakeIce (vapor_adjust_iso f fr) = LakeIce fr - (- vapor_flux (snow fr) - SnowIce fr)"
    "volume (lake (vapor_adjust_iso f fr))
       = volume (lake fr)
         - surface (lake fr) 0 * fracprv f * (- vapor_flux (snow fr) - SnowIce fr)"
    "SnowIce (vapor_adjust_iso f fr) = 0"
    "snow (vapor_adjust_iso f fr) = snow fr"
  using assms by (simp_all add: vapor_adjust_iso_def Let_def algebra_simps)

lemma vapor_iso_pack:
  assumes "- vapor_flux (snow fr) \<le> SnowIce fr + surf_water (snow fr)"
    and "- vapor_flux (snow fr) \<le> SnowIce fr + surf_water (snow fr) + LakeIce fr"
  shows "surf_water (snow (vapor_adjust_iso f fr))
           = (if surf_water (snow fr) < - vapor_flux (snow fr) then 0
              else surf_water (snow fr) - (- vapor_flux (snow fr)))"
    "SnowIce (vapor_adjust_iso f fr)
           = (if surf_water (snow fr) < - vapor_flux (snow fr)
              then SnowIce fr - (- vapor_flux (snow fr) - surf_water (snow fr))
              else SnowIce fr)"
    "LakeIce (vapor_adjust_iso f fr) = LakeIce fr"
    "lake (vapor_adjust_iso f fr) = lake fr"
    "vapor_flux (snow (vapor_adjust_iso f fr)) = vapor_flux (snow fr)"
    "blowing_flux (snow (vapor_adjust_iso f fr)) = blowing_flux (snow fr)"
    "surface_flux (snow (vapor_adjust_iso f fr)) = surface_flux (snow fr)"
  using assms by (simp_all add: vapor_adjust_iso_def Let_def)


lemma refreeze_SnowMelt:
  assumes "consts_ok k" and "0 \<le> delta_t f" and "refreeze_or_melt k f fr = Inr fr'"
  shows "0 \<le> SnowMelt fr'"
proof (cases "RefreezeEnergy fr \<ge> 0")
  case True
  with assms(3) show ?thesis
    by (auto simp add: refreeze_or_melt_def Let_def split: if_splits)
next
  case False
  with assms(3) have "SnowMelt fr' = \<bar>RefreezeEnergy fr\<bar> / (Lf k * RHO_W k)
      * real_of_int (delta_t f) * SECPHOUR k"
    by (auto simp add: refreeze_or_melt_def Let_def split: if_splits)
  moreover have "0 < Lf k * RHO_W k" "0 < SECPHOUR k"
    using assms(1) by (simp_all add: consts_ok_def)
  ultimately show ?thesis using assms(2) by simp
qed

lemma refreeze_SnowMelt_value:
  "refreeze_or_melt k f fr = Inr fr' \<Longrightarrow>
     SnowMelt fr' =
       (if 0 \<le> RefreezeEnergy fr then 0
        else \<bar>RefreezeEnergy fr\<bar> / (Lf k * RHO_W k) * real_of_int (delta_t f) * SECPHOUR k)"
  by (auto simp add: refreeze_or_melt_def Let_def split: if_splits)

lemma refreeze_LakeIce:
  "refreeze_or_melt k f fr = Inr fr' \<Longrightarrow> LakeIce fr' = LakeIce fr"
  by (auto simp add: refreeze_or_melt_def Let_def split: if_splits)

lemma before_vapor_iso_ice:
  assumes "consts_ok k" and "0 \<le> delta_t f" and "0 \<le> hice l"
  shows "0 \<le> SnowMelt (before_vapor_iso ext k f s l)"
    and "0 \<le> LakeIce (before_vapor_iso ext k f s l)"
proof -
  show "0 \<le> SnowMelt (before_vapor_iso ext k f s l)"
    using assms(1,2) before_vapor_iso_eq [of k f ext s l] by (rule refreeze_SnowMelt)
  have "LakeIce (before_vapor_iso ext k f s l) = hice l * RHOICE k / RHO_W k"
    using refreeze_LakeIce [OF before_vapor_iso_eq [of k f ext s l]]
    by (simp add: start_frame_fields)
  moreover have "0 < RHOICE k" "0 < RHO_W k"
    using assms(1) by (simp_all add: consts_ok_def)
  ultimately show "0 \<le> LakeIce (before_vapor_iso ext k f s l)"
    using assms(3) by simp
qed

lemma vapor_iso_ice:
  assumes "0 \<le> LakeIce fr"
  shows "0 \<le> LakeIce (vapor_adjust_iso f fr) \<or> SnowIce (vapor_adjust_iso f fr) = 0"
    and "SnowMelt (vapor_adjust_iso f fr) = SnowMelt fr"
    and "IceMelt (vapor_adjust_iso f fr) = IceMelt fr"
  using assms by (simp_all add: vapor_adjust_iso_def Let_def)

lemma partition_cases:
  "SnowMelt fr < SnowIce fr \<Longrightarrow>
     melt_partition fr =
       fr\<lparr>snow := (snow fr)\<lparr>surf_water := surf_water (snow fr) + SnowMelt fr\<rparr>,
          SnowIce := SnowIce fr - SnowMelt fr\<rparr>"
  "SnowIce fr \<le> SnowMelt fr \<Longrightarrow> SnowMelt fr < SnowIce fr + LakeIce fr \<Longrightarrow>
     melt_partition fr =
       fr\<lparr>snow := (snow fr)\<lparr>surf_water := surf_water (snow fr) + SnowIce fr\<rparr>,
          LakeIce := LakeIce fr - (SnowMelt fr - SnowIce fr),
          IceMelt := SnowMelt fr - SnowIce fr, SnowIce := 0\<rparr>"
  "SnowIce fr \<le> SnowMelt fr \<Longrightarrow> SnowIce fr + LakeIce fr \<le> SnowMelt fr \<Longrightarrow>
     melt_partition fr =
       fr\<lparr>SnowMelt := SnowIce fr + LakeIce fr,
          snow := (snow fr)\<lparr>surf_water := surf_water (snow fr) + SnowIce fr\<rparr>,
          IceMelt := LakeIce fr, SnowIce := 0, LakeIce := 0\<rparr>"
  by (simp_all add: melt_partition_def Let_def)


lemma before_partition_ex:
  assumes "re < 0" and "0 \<le> a" and "0 \<le> h"
  shows "SnowIce (before_partition (externals_ex 0 re 0 rt) vic forcing_ex (snow_ex a 0)
      (lake_ex h)) = a"
    "LakeIce (before_partition (externals_ex 0 re 0 rt) vic forcing_ex (snow_ex a 0)
      (lake_ex h)) = h * 917 / 1000"
    "SnowMelt (before_partition (externals_ex 0 re 0 rt) vic forcing_ex (snow_ex a 0)
      (lake_ex h)) = \<bar>re\<bar> / 333700000 * 3600"
    "surf_water (snow (before_partition (externals_ex 0 re 0 rt) vic forcing_ex (snow_ex a 0)
      (lake_ex h))) = 0"
  using assms
  by (simp_all add: before_partition_def vapor_adjust_iso_def before_vapor_iso_def
      refreeze_or_melt_def start_frame_ex ex_sel Let_def)


subsection \<open>The reservoirs stay non-negative off the boundary\<close>

lemma start_pack_ok:
  assumes "consts_ok k" "0 \<le> surf_water s" "surf_water s \<le> swq s" "0 \<le> hice l"
    "0 \<le> rainfall f" "0 \<le> snowfall f"
  shows "pack_ok (start_frame ext k f s l)"
proof -
  have "0 < RHOICE k" "0 < RHO_W k" using assms(1) by (simp_all add: consts_ok_def)
  then have "0 \<le> hice l * RHOICE k / RHO_W k" using assms(4) by simp
  then show ?thesis using assms(2,3,5,6) by (simp add: pack_ok_def start_frame_fields)
qed

lemma refreeze_pack_ok:
  assumes "consts_ok k" "0 \<le> delta_t f" "pack_ok fr" "refreeze_or_melt k f fr = Inr fr'"
  shows "pack_ok fr'"
proof (cases "RefreezeEnergy fr \<ge> 0")
  case True
  have pos: "0 < Lf k * RHO_W k" "0 < SECPHOUR k"
    using assms(1) by (simp_all add: consts_ok_def)
  have "0 \<le> RefreezeEnergy fr / (Lf k * RHO_W k) * real_of_int (delta_t f) * SECPHOUR k"
    using True pos assms(2) by simp
  with True assms(3,4) show ?thesis
    by (auto simp add: refreeze_or_melt_def pack_ok_def Let_def split: if_splits)
next
  case False
  with assms(3,4) show ?thesis
    by (auto simp add: refreeze_or_melt_def pack_ok_def Let_def split: if_splits)
qed

lemma vapor_iso_pack_ok:
  assumes "pack_ok fr" "\<not> iso_boundary fr"
  shows "0 \<le> SnowIce (vapor_adjust_iso f fr)"
    "0 \<le> surf_water (snow (vapor_adjust_iso f fr))"
    "0 \<le> LakeIce (vapor_adjust_iso f fr) \<or> SnowIce (vapor_adjust_iso f fr) = 0"
  using assms
  by (auto simp add: vapor_adjust_iso_def pack_ok_def iso_boundary_def Let_def)

lemma partition_pack_ok:
  assumes "0 \<le> SnowIce fr" "0 \<le> surf_water (snow fr)" "0 \<le> LakeIce fr \<or> SnowIce fr = 0"
    "0 \<le> SnowMelt fr"
  shows "pack_ok (melt_partition fr)"
  using assms by (auto simp add: melt_partition_def pack_ok_def Let_def)

lemma freeze_pack_ok: "pack_ok fr \<Longrightarrow> pack_ok (freeze_surface_water k f fr)"
  by (simp add: freeze_surface_water_def pack_ok_def Let_def)

lemma vapor_sub_pack_ok:
  assumes "pack_ok fr" "\<not> sub_boundary fr"
  shows "pack_ok (vapor_adjust_sub f fr)"
  using assms
  by (auto simp add: vapor_adjust_sub_def pack_ok_def sub_boundary_def Let_def)

lemma finish_nonneg:
  assumes "consts_ok k" "pack_ok fr"
  shows "0 \<le> swq (snow_out (finish k fr))" "0 \<le> surf_water (snow_out (finish k fr))"
    "0 \<le> hice (lake_out (finish k fr))"
proof -
  have "0 \<le> LIQUID_WATER_CAPACITY k * SnowIce fr"
    using assms by (simp add: consts_ok_def pack_ok_def)
  then show w: "0 \<le> surf_water (snow_out (finish k fr))"
    using assms(2) by (simp add: finish_fields MaxLiquidWater_def pack_ok_def)
  then show "0 \<le> swq (snow_out (finish k fr))"
    using assms(2) by (simp add: finish_fields(1) pack_ok_def)
  show "0 \<le> hice (lake_out (finish k fr))"
    by (simp add: finish_fields)
qed


lemma solve_pack_ok: "pack_ok (snd (solve_surface ext k f fr)) = pack_ok fr"
  by (simp add: solve_surface_def pack_ok_def Let_def split: prod.splits)

lemma reevaluate_pack_ok: "pack_ok (reevaluate ext k f fr) = pack_ok fr"
  by (simp add: reevaluate_def pack_ok_def Let_def split: prod.splits)

lemma nonnegative_off_boundary:
  assumes k: "consts_ok k" and dt: "0 < delta_t f"
    and s: "0 \<le> surf_water s" "surf_water s \<le> swq s" and l: "0 \<le> hice l"
    and p: "0 \<le> rainfall f" "0 \<le> snowfall f"
    and run: "ice_melt ext k f s l = (calls, Inr r)"
    and iso: "Qnet_at_freezing ext k f s l = 0 \<Longrightarrow>
                \<not> iso_boundary (before_vapor_iso ext k f s l)"
    and sub: "Qnet_at_freezing ext k f s l \<noteq> 0 \<Longrightarrow>
                \<not> sub_boundary (before_vapor_sub ext k f s l)"
  shows "0 \<le> swq (snow_out r) \<and> 0 \<le> surf_water (snow_out r) \<and> 0 \<le> hice (lake_out r)"
proof -
  from run obtain fr where fr: "ice_melt_frame ext k f s l = (calls, Inr fr)"
    and r: "r = finish k fr"
    using ice_melt_Inr by blast
  have start: "pack_ok (start_frame ext k f s l)"
    using k s l p by (rule start_pack_ok)
  have "pack_ok fr"
  proof (cases "Qnet_at_freezing ext k f s l = 0")
    case True
    have dt': "0 \<le> delta_t f" using dt by simp
    have ok1: "pack_ok (before_vapor_iso ext k f s l)"
      using k dt' start before_vapor_iso_eq by (rule refreeze_pack_ok)
    have M: "0 \<le> SnowMelt (before_partition ext k f s l)"
      using before_vapor_iso_ice(1) [OF k dt' l, of ext s] ok1
      by (simp add: before_partition_def vapor_iso_ice pack_ok_def)
    from True fr have "fr = melt_partition (before_partition ext k f s l)"
      by (simp add: isothermal_frame)
    then show ?thesis
      using vapor_iso_pack_ok [OF ok1 iso [OF True], of f] M
      by (simp add: before_partition_def partition_pack_ok)
  next
    case False
    with fr have "fr = vapor_adjust_sub f (before_vapor_sub ext k f s l)"
      by (simp add: subfreezing_frame split: if_splits)
    moreover have "pack_ok (before_vapor_sub ext k f s l)"
      using start
      by (simp add: before_vapor_sub_def before_freeze_def solved_def freeze_pack_ok
          reevaluate_pack_ok solve_pack_ok)
    ultimately show ?thesis using sub [OF False] by (simp add: vapor_sub_pack_ok)
  qed
  with k show ?thesis unfolding r by (simp add: finish_nonneg)
qed

subsection \<open>The lake ice at the end\<close>

lemma vapor_sub_LakeIce:
  "0 \<le> LakeIce fr \<Longrightarrow> 0 \<le> LakeIce (vapor_adjust_sub f fr)"
  by (simp add: vapor_adjust_sub_def Let_def)

lemma partition_LakeIce:
  assumes "0 \<le> LakeIce fr \<or> SnowIce fr = 0" and "0 \<le> SnowMelt fr"
  shows "0 \<le> LakeIce (melt_partition fr)"
  using assms by (auto simp add: melt_partition_def Let_def)

lemma final_LakeIce:
  assumes k: "consts_ok k" and dt: "0 \<le> delta_t f" and l: "0 \<le> hice l"
    and fr: "ice_melt_frame ext k f s l = (calls, Inr fr)"
  shows "0 \<le> LakeIce fr"
proof (cases "Qnet_at_freezing ext k f s l = 0")
  case True
  with fr have "fr = melt_partition (before_partition ext k f s l)"
    by (simp add: isothermal_frame)
  moreover have "0 \<le> LakeIce (before_partition ext k f s l)
      \<or> SnowIce (before_partition ext k f s l) = 0"
    "0 \<le> SnowMelt (before_partition ext k f s l)"
    using before_vapor_iso_ice [OF k dt l, of ext s]
    by (simp_all add: before_partition_def vapor_iso_ice)
  ultimately show ?thesis by (simp add: partition_LakeIce)
next
  case False
  with fr have "fr = vapor_adjust_sub f (before_vapor_sub ext k f s l)"
    by (simp add: subfreezing_frame split: if_splits)
  moreover have "0 < RHOICE k" "0 < RHO_W k" using k by (simp_all add: consts_ok_def)
  then have "0 \<le> LakeIce (before_vapor_sub ext k f s l)"
    using l by (simp add: before_vapor_sub_def freeze_surface_water_def before_freeze_fields
        Let_def)
  ultimately show ?thesis by (simp add: vapor_sub_LakeIce)
qed

lemma final_hice:
  assumes k: "consts_ok k" and dt: "0 \<le> delta_t f" and l: "0 \<le> hice l"
    and fr: "ice_melt_frame ext k f s l = (calls, Inr fr)"
  shows "LakeIce fr = hice (lake_out (finish k fr)) * RHOICE k / RHO_W k"
proof -
  have pos: "0 < RHOICE k" "0 < RHO_W k" using k by (simp_all add: consts_ok_def)
  have "0 \<le> LakeIce fr" using k dt l fr by (rule final_LakeIce)
  then have "0 \<le> LakeIce fr * RHO_W k / RHOICE k" using pos by simp
  then have "hice (lake_out (finish k fr)) = LakeIce fr * RHO_W k / RHOICE k"
    by (simp add: finish_fields)
  then show ?thesis using pos by simp
qed

subsection \<open>The net energy at 0 C\<close>

lemma Qnet_at_freezing_eq:
  "Qnet_at_freezing ext k f s l =
     fst (IceEnergyBalance ext 0
            (energy_args k f (rainfall f / 1000) (hice l * RHOICE k / RHO_W k)
               (s\<lparr>surf_water := surf_water s + rainfall f / 1000\<rparr>) (surf_temp s)
               (snd (snd (icerad ext (net_short f) (hice l)
                  ((swq s - surf_water s + snowfall f / 1000) * RHO_W k / RHOSNOW k))))
               (fst (icerad ext (net_short f) (hice l)
                  ((swq s - surf_water s + snowfall f / 1000) * RHO_W k / RHOSNOW k)))
               (fst (snd (icerad ext (net_short f) (hice l)
                  ((swq s - surf_water s + snowfall f / 1000) * RHO_W k / RHOSNOW k)))))
            (vapor_flux s, 0, surface_flux s))"
  by (simp add: Qnet_at_freezing_def start_frame_def energy_args_def Let_def split: prod.splits)

section \<open>Which branch runs\<close>

text \<open>
  Claim C1, as amended. The test of line 218 is \<^verbatim>\<open>Qnet == 0.0\<close>: when the net energy
  at 0 C (what the energy balance returns at a trial temperature of 0, lemma
  \<open>Qnet_at_freezing_eq\<close>) is exactly zero, the step runs the isothermal branch and never
  calls the solver; when it is anything else, negative or positive, the step runs the
  solver branch and calls \<^verbatim>\<open>root_brent\<close>.
\<close>

theorem branch_on_net_energy:
  "(Qnet_at_freezing ext k f s l = 0 \<longrightarrow>
      ice_melt_frame ext k f s l =
        ([Call_icerad, Call_CalcIcePackEnergyBalance 0],
         isothermal_branch k f (start_frame ext k f s l))
      \<and> \<not> solver_invoked (fst (ice_melt ext k f s l)))
   \<and> (Qnet_at_freezing ext k f s l \<noteq> 0 \<longrightarrow>
      snd (ice_melt_frame ext k f s l)
        = snd (subfreezing_branch ext k f (start_frame ext k f s l))
      \<and> solver_invoked (fst (ice_melt ext k f s l)))"
proof (intro conjI impI)
  assume z: "Qnet_at_freezing ext k f s l = 0"
  then show "ice_melt_frame ext k f s l =
        ([Call_icerad, Call_CalcIcePackEnergyBalance 0],
         isothermal_branch k f (start_frame ext k f s l))"
    by (simp add: ice_melt_frame_def Qnet_at_freezing_def Let_def)
  from z show "\<not> solver_invoked (fst (ice_melt ext k f s l))"
    by (simp add: ice_melt_calls isothermal_frame solver_invoked_simps)
next
  assume nz: "Qnet_at_freezing ext k f s l \<noteq> 0"
  then show "snd (ice_melt_frame ext k f s l)
      = snd (subfreezing_branch ext k f (start_frame ext k f s l))"
    by (simp add: ice_melt_frame_def Qnet_at_freezing_def Let_def split: prod.splits)
  from nz show "solver_invoked (fst (ice_melt ext k f s l))"
    by (simp add: ice_melt_calls subfreezing_frame solver_invoked_simps)
qed

text \<open>The theorem at a net energy of 0 and at a net energy of -1.\<close>

theorem branch_on_net_energy_witness:
  "Qnet_at_freezing (externals_ex 0 0 0 0) vic forcing_ex (snow_ex 1 0) (lake_ex 1) = 0
   \<and> \<not> solver_invoked
        (fst (ice_melt (externals_ex 0 0 0 0) vic forcing_ex (snow_ex 1 0) (lake_ex 1)))
   \<and> Qnet_at_freezing (externals_ex (- 1) 0 0 (- 3)) vic forcing_ex (snow_ex 1 0) (lake_ex 1)
        \<noteq> 0
   \<and> solver_invoked
        (fst (ice_melt (externals_ex (- 1) 0 0 (- 3)) vic forcing_ex (snow_ex 1 0)
                (lake_ex 1)))"
  using branch_on_net_energy [of "externals_ex 0 0 0 0" vic forcing_ex "snow_ex 1 0" "lake_ex 1"]
    branch_on_net_energy
      [of "externals_ex (- 1) 0 0 (- 3)" vic forcing_ex "snow_ex 1 0" "lake_ex 1"]
  by (simp add: Qnet_ex)

text \<open>
  Claim C1 as stated fails: with a net energy of 1 at 0 C (positive), the solver is called.
\<close>

theorem positive_net_energy_invokes_solver:
  "0 \<le> Qnet_at_freezing (externals_ex 1 0 0 (- 3)) vic forcing_ex (snow_ex 1 0) (lake_ex 1)
   \<and> solver_invoked
        (fst (ice_melt (externals_ex 1 0 0 (- 3)) vic forcing_ex (snow_ex 1 0) (lake_ex 1)))"
  by (simp add: Qnet_ex ice_melt_calls subfreezing_frame solver_invoked_simps)

section \<open>The mass balance diagnostic\<close>

text \<open>
  For every call that returns, the stored \<^verbatim>\<open>mass_error\<close> is
  (initial swq - final swq) + (initial lake ice - final lake ice) + (rain + snow)
  - ice melt - surface melt output + vapor flux, with the lake ice as water equivalent
  (under the preconditions, the final one is the final \<^verbatim>\<open>hice\<close> times
  \<^verbatim>\<open>RHOICE / RHO_W\<close>), rain, snow and the melt output in metres, and the vapor flux as
  it is before line 430 inverts its sign. It is zero at 0 C where the first test of line
  245 fails, and below freezing wherever lines 378 to 379 are not reached; where they are,
  it is the vapor flux.
\<close>

lemma mass_error_cases:
  assumes "ice_melt ext k f s l = (calls, Inr r)"
  shows "\<exists>fr. ice_melt_frame ext k f s l = (calls, Inr fr)
    \<and> mass_error (snow_out r) =
        (swq s - swq (snow_out r)) + (hice l * RHOICE k / RHO_W k - LakeIce fr)
        + (rainfall f / 1000 + snowfall f / 1000) - IceMelt fr - melt r / 1000
        + (- vapor_flux (snow_out r))
    \<and> (consts_ok k \<and> 0 < delta_t f \<and> 0 \<le> hice l
         \<longrightarrow> LakeIce fr = hice (lake_out r) * RHOICE k / RHO_W k)
    \<and> (Qnet_at_freezing ext k f s l = 0 \<and> \<not> clamped_iso (before_vapor_iso ext k f s l)
         \<longrightarrow> mass_error (snow_out r) = 0)
    \<and> (Qnet_at_freezing ext k f s l \<noteq> 0 \<and> \<not> bare_ice_sub (before_vapor_sub ext k f s l)
         \<longrightarrow> mass_error (snow_out r) = 0)
    \<and> (Qnet_at_freezing ext k f s l \<noteq> 0 \<and> bare_ice_sub (before_vapor_sub ext k f s l)
         \<longrightarrow> mass_error (snow_out r) = - vapor_flux (snow_out r))"
proof -
  from assms obtain fr where fr: "ice_melt_frame ext k f s l = (calls, Inr fr)"
    and r: "r = finish k fr"
    using ice_melt_Inr by blast
  have formula: "mass_error (snow_out r) =
        (swq s - swq (snow_out r)) + (hice l * RHOICE k / RHO_W k - LakeIce fr)
        + (rainfall f / 1000 + snowfall f / 1000) - IceMelt fr - melt r / 1000
        + (- vapor_flux (snow_out r))"
    using finish_formula [of k fr] initial_kept [OF fr] by (simp add: r)
  have iso: "mass_error (snow_out r) = 0"
    if "Qnet_at_freezing ext k f s l = 0" "\<not> clamped_iso (before_vapor_iso ext k f s l)"
  proof -
    from that(1) fr have "fr = melt_partition (before_partition ext k f s l)"
      by (simp add: isothermal_frame)
    then show ?thesis using that(2)
      by (simp add: r finish_mass_error partition_stock before_partition_def vapor_iso_stock
          before_vapor_iso_stock)
  qed
  have sub: "mass_error (snow_out r)
      = (if bare_ice_sub (before_vapor_sub ext k f s l) then - vapor_flux (snow_out r) else 0)"
    if "Qnet_at_freezing ext k f s l \<noteq> 0"
  proof -
    from that fr have "fr = vapor_adjust_sub f (before_vapor_sub ext k f s l)"
      by (simp add: subfreezing_frame split: if_splits)
    then show ?thesis
      by (simp add: r finish_mass_error finish_fields vapor_sub_stock vapor_sub_bare
          before_vapor_sub_stock)
  qed
  have ice: "LakeIce fr = hice (lake_out r) * RHOICE k / RHO_W k"
    if "consts_ok k" "0 < delta_t f" "0 \<le> hice l"
    using final_hice [OF that(1) _ that(3) fr] that(2) by (simp add: r)
  from fr formula ice iso sub show ?thesis by auto
qed

text \<open>
  Claim C2 fails on the code. The stored diagnostic is the stated sum, but it is not
  always zero: with no snow on 1 m of lake ice, a surface below freezing and a vapor
  deposit of 0.01 m, the preconditions hold and the step returns; lines 378 to 379 add
  the deposit to the lake volume and leave the lake ice as it is (lines 371 to 372 change
  both), and the diagnostic is 0.01 m.
\<close>

theorem deposition_on_bare_ice_unbalanced:
  "0 < delta_t forcing_ex \<and> 0 \<le> surf_water (snow_ex 0 0)
   \<and> surf_water (snow_ex 0 0) \<le> swq (snow_ex 0 0) \<and> 0 \<le> hice (lake_ex 1)
   \<and> map_option (mass_error \<circ> snow_out)
        (returned (ice_melt (externals_ex (- 1) 0 (1 / 100) (- 3)) vic forcing_ex (snow_ex 0 0)
           (lake_ex 1)))
      = Some (1 / 100)"
proof -
  have "mass_error (snow_out (finish vic (vapor_adjust_sub forcing_ex
        (before_vapor_sub (externals_ex (- 1) 0 (1 / 100) (- 3)) vic forcing_ex (snow_ex 0 0)
           (lake_ex 1))))) = 1 / 100"
    by (simp add: finish_mass_error vapor_sub_stock before_vapor_sub_stock vapor_sub_bare
        bare_ice_sub_def before_vapor_sub_ex)
  then show ?thesis
    by (simp add: returned_sub_ex ex_sel)
qed

section \<open>Non-negative reservoirs\<close>

text \<open>
  Claim C3 fails on the code, by a slip at a boundary. Lines 245 and 256 test
  \<open>total < demand\<close> and \<open>total > demand\<close>, so a vapor loss exactly equal to snow ice,
  surface liquid and lake ice together falls to the last branch, which takes it all from
  the snow pack: with 0.083 m of snow ice on 1 m of lake ice (0.917 m of water) and a loss
  of 1 m, the preconditions hold, the step returns, and the output \<^verbatim>\<open>swq\<close> is
  -0.917 m. Off that boundary the outputs are non-negative (lemma
  \<open>nonnegative_off_boundary\<close>).
\<close>

theorem exact_demand_leaves_negative_pack:
  "0 < delta_t forcing_ex \<and> 0 \<le> surf_water (snow_ex (83 / 1000) 0)
   \<and> surf_water (snow_ex (83 / 1000) 0) \<le> swq (snow_ex (83 / 1000) 0)
   \<and> 0 \<le> hice (lake_ex 1)
   \<and> map_option (swq \<circ> snow_out)
        (returned (ice_melt (externals_ex 0 0 (- 1) 0) vic forcing_ex (snow_ex (83 / 1000) 0)
           (lake_ex 1)))
      = Some (- (917 / 1000))
   \<and> map_option (surf_water \<circ> snow_out)
        (returned (ice_melt (externals_ex 0 0 (- 1) 0) vic forcing_ex (snow_ex (83 / 1000) 0)
           (lake_ex 1)))
      = Some (- (917 / 1000))"
proof -
  have "swq (snow_out (finish vic (melt_partition
        (before_partition (externals_ex 0 0 (- 1) 0) vic forcing_ex (snow_ex (83 / 1000) 0)
           (lake_ex 1))))) = - (917 / 1000)"
    "surf_water (snow_out (finish vic (melt_partition
        (before_partition (externals_ex 0 0 (- 1) 0) vic forcing_ex (snow_ex (83 / 1000) 0)
           (lake_ex 1))))) = - (917 / 1000)"
    by (simp_all add: finish_def MaxLiquidWater_def melt_partition_def before_partition_def
        vapor_adjust_iso_def before_vapor_iso_ex ex_sel Let_def)
  then show ?thesis
    by (simp add: returned_iso_ex ex_sel)
qed

section \<open>The vapor flux at 0 C\<close>

text \<open>
  Claim C4, as amended. In the isothermal branch, under the preconditions of the step,
  with the demand \<open>d\<close> the vapor loss (minus the vapor flux), \<open>S\<close> the snow ice, \<open>W\<close> the
  surface liquid and \<open>L\<close> the lake ice: if \<open>S + W + L < d\<close> (and \<open>d\<close> is not zero), the
  vapor flux is set to minus the total, the blowing flux is scaled by total over demand,
  the surface flux is minus the total less the blowing flux, both ice reservoirs are
  zeroed and the lake volume is lowered by the lost lake ice times the prior ice fraction
  times the surface area; if \<open>S + W < d < S + W + L\<close>, the snow ice is zeroed, the vapor
  flux stays, and the lake volume is lowered by what the lake ice is lowered by, times the
  surface area times the prior fraction, which is \<open>d - S\<close> where there is no surface
  liquid; if \<open>d \<le> S + W\<close>, the flux is taken from the surface liquid, and where that is
  less than the demand the surface liquid is zeroed and the rest is taken from the snow
  ice, the lake ice, the lake and the fluxes staying as they are. Nothing is said of the
  surface liquid in the first two cases, of the lake ice taken in the second where there is
  surface liquid, or of \<open>S + W < d = S + W + L\<close>.
\<close>

theorem vapor_flux_priority:
  assumes "consts_ok k" and "0 < delta_t f" and "0 \<le> hice l"
    and "Qnet_at_freezing ext k f s l = 0"
    and "fr = before_vapor_iso ext k f s l" and "fr' = before_partition ext k f s l"
    and "S = SnowIce fr" and "W = surf_water (snow fr)" and "L = LakeIce fr"
    and "d = - vapor_flux (snow fr)"
  shows "snd (ice_melt_frame ext k f s l) = Inr (melt_partition fr')
    \<and> (S + W + L < d \<and> d \<noteq> 0 \<longrightarrow>
         vapor_flux (snow fr') = - (S + W + L)
       \<and> blowing_flux (snow fr') = blowing_flux (snow fr) * ((S + W + L) / d)
       \<and> surface_flux (snow fr') = - (S + W + L) - blowing_flux (snow fr')
       \<and> SnowIce fr' = 0 \<and> LakeIce fr' = 0
       \<and> volume (lake fr') = volume (lake fr) - L * fracprv f * surface (lake fr) 0)
    \<and> (S + W < d \<and> d < S + W + L \<longrightarrow>
         SnowIce fr' = 0
       \<and> vapor_flux (snow fr') = - d
       \<and> volume (lake fr')
           = volume (lake fr) - surface (lake fr) 0 * fracprv f * (L - LakeIce fr')
       \<and> (W = 0 \<longrightarrow> LakeIce fr' = L - (d - S)))
    \<and> (d \<le> S + W \<longrightarrow>
         surf_water (snow fr') = (if W < d then 0 else W - d)
       \<and> SnowIce fr' = (if W < d then S - (d - W) else S)
       \<and> LakeIce fr' = L \<and> lake fr' = lake fr
       \<and> vapor_flux (snow fr') = - d
       \<and> blowing_flux (snow fr') = blowing_flux (snow fr)
       \<and> surface_flux (snow fr') = surface_flux (snow fr))"
proof -
  have run: "snd (ice_melt_frame ext k f s l) = Inr (melt_partition fr')"
    using assms(4,6) by (simp add: isothermal_frame)
  have step: "fr' = vapor_adjust_iso f fr"
    using assms(5,6) by (simp add: before_partition_def)
  have L: "0 \<le> L"
    using before_vapor_iso_ice(2) [of k f l ext s] assms(1,2,3,5,9) by simp
  have "(- (S + W + L)) / (- d) = (S + W + L) / d"
    by (simp only: minus_divide_divide)
  then have quot: "- (S + W + L) / vapor_flux (snow fr) = (S + W + L) / d"
    using assms(10) by simp
  have c1: "vapor_flux (snow fr') = - (S + W + L)
       \<and> blowing_flux (snow fr') = blowing_flux (snow fr) * ((S + W + L) / d)
       \<and> surface_flux (snow fr') = - (S + W + L) - blowing_flux (snow fr')
       \<and> SnowIce fr' = 0 \<and> LakeIce fr' = 0
       \<and> volume (lake fr') = volume (lake fr) - L * fracprv f * surface (lake fr) 0"
    if "S + W + L < d"
    using that step quot vapor_iso_clamped [of fr f] unfolding assms(7-10) by simp
  have c2: "SnowIce fr' = 0
       \<and> vapor_flux (snow fr') = - d
       \<and> volume (lake fr')
           = volume (lake fr) - surface (lake fr) 0 * fracprv f * (L - LakeIce fr')
       \<and> (W = 0 \<longrightarrow> LakeIce fr' = L - (d - S))"
    if "S + W < d" "d < S + W + L"
    using that step vapor_iso_lake [of fr f] unfolding assms(7-10) by simp
  have c3: "surf_water (snow fr') = (if W < d then 0 else W - d)
       \<and> SnowIce fr' = (if W < d then S - (d - W) else S)
       \<and> LakeIce fr' = L \<and> lake fr' = lake fr
       \<and> vapor_flux (snow fr') = - d
       \<and> blowing_flux (snow fr') = blowing_flux (snow fr)
       \<and> surface_flux (snow fr') = surface_flux (snow fr)"
    if "d \<le> S + W"
  proof -
    from that L have "d \<le> S + W + L" by simp
    with that show ?thesis
      using step vapor_iso_pack [of fr f] unfolding assms(7-10) by simp
  qed
  from run c1 c2 c3 show ?thesis by blast
qed

text \<open>
  The theorem on a demand of 2 m against 1 m in all, on the demand of 0.03 m against
  0.01 m of snow ice and 0.05 m of lake ice, and on a demand of 0.03 m against 0.01 m of
  liquid in a deep pack.
\<close>

theorem vapor_flux_priority_witness:
  "consts_ok vic \<and> 0 < delta_t forcing_ex \<and> 0 \<le> hice (lake_ex 1)
   \<and> 0 \<le> hice (lake_ex (50 / 917))
   \<and> Qnet_at_freezing (externals_ex 0 0 (- 2) 0) vic forcing_ex (snow_ex (83 / 1000) 0)
        (lake_ex 1) = 0
   \<and> SnowIce (before_partition (externals_ex 0 0 (- 2) 0) vic forcing_ex
        (snow_ex (83 / 1000) 0) (lake_ex 1)) = 0
   \<and> LakeIce (before_partition (externals_ex 0 0 (- 2) 0) vic forcing_ex
        (snow_ex (83 / 1000) 0) (lake_ex 1)) = 0
   \<and> vapor_flux (snow (before_partition (externals_ex 0 0 (- 2) 0) vic forcing_ex
        (snow_ex (83 / 1000) 0) (lake_ex 1))) = - 1
   \<and> volume (lake (before_partition (externals_ex 0 0 (- 2) 0) vic forcing_ex
        (snow_ex (83 / 1000) 0) (lake_ex 1))) = 1000 - 917 / 100
   \<and> SnowIce (before_partition (externals_ex 0 0 (- (3 / 100)) 0) vic forcing_ex
        (snow_ex (1 / 100) 0) (lake_ex (50 / 917))) = 0
   \<and> LakeIce (before_partition (externals_ex 0 0 (- (3 / 100)) 0) vic forcing_ex
        (snow_ex (1 / 100) 0) (lake_ex (50 / 917))) = 3 / 100
   \<and> volume (lake (before_partition (externals_ex 0 0 (- (3 / 100)) 0) vic forcing_ex
        (snow_ex (1 / 100) 0) (lake_ex (50 / 917)))) = 1000 - 2 / 10
   \<and> surf_water (snow (before_partition (externals_ex 0 0 (- (3 / 100)) 0) vic forcing_ex
        (snow_ex 1 (1 / 100)) (lake_ex 1))) = 0
   \<and> SnowIce (before_partition (externals_ex 0 0 (- (3 / 100)) 0) vic forcing_ex
        (snow_ex 1 (1 / 100)) (lake_ex 1)) = 99 / 100 - 2 / 100"
proof -
  have pre: "0 < delta_t forcing_ex" "0 \<le> hice (lake_ex 1)" "0 \<le> hice (lake_ex (50 / 917))"
    by (simp_all add: ex_sel)
  have a: "SnowIce (before_partition (externals_ex 0 0 (- 2) 0) vic forcing_ex
        (snow_ex (83 / 1000) 0) (lake_ex 1)) = 0
   \<and> LakeIce (before_partition (externals_ex 0 0 (- 2) 0) vic forcing_ex
        (snow_ex (83 / 1000) 0) (lake_ex 1)) = 0
   \<and> vapor_flux (snow (before_partition (externals_ex 0 0 (- 2) 0) vic forcing_ex
        (snow_ex (83 / 1000) 0) (lake_ex 1))) = - 1
   \<and> volume (lake (before_partition (externals_ex 0 0 (- 2) 0) vic forcing_ex
        (snow_ex (83 / 1000) 0) (lake_ex 1))) = 1000 - 917 / 100"
    using vapor_flux_priority
      [of vic forcing_ex "lake_ex 1" "externals_ex 0 0 (- 2) 0" "snow_ex (83 / 1000) 0",
       OF consts_ok_vic pre(1) pre(2) Qnet_ex refl refl refl refl refl refl]
    by (simp add: before_vapor_iso_ex ex_sel)
  have b: "SnowIce (before_partition (externals_ex 0 0 (- (3 / 100)) 0) vic forcing_ex
        (snow_ex (1 / 100) 0) (lake_ex (50 / 917))) = 0
   \<and> LakeIce (before_partition (externals_ex 0 0 (- (3 / 100)) 0) vic forcing_ex
        (snow_ex (1 / 100) 0) (lake_ex (50 / 917))) = 3 / 100
   \<and> volume (lake (before_partition (externals_ex 0 0 (- (3 / 100)) 0) vic forcing_ex
        (snow_ex (1 / 100) 0) (lake_ex (50 / 917)))) = 1000 - 2 / 10"
    using vapor_flux_priority
      [of vic forcing_ex "lake_ex (50 / 917)" "externals_ex 0 0 (- (3 / 100)) 0"
        "snow_ex (1 / 100) 0",
       OF consts_ok_vic pre(1) pre(3) Qnet_ex refl refl refl refl refl refl]
    by (simp add: before_vapor_iso_ex ex_sel)
  have c: "surf_water (snow (before_partition (externals_ex 0 0 (- (3 / 100)) 0) vic forcing_ex
        (snow_ex 1 (1 / 100)) (lake_ex 1))) = 0
   \<and> SnowIce (before_partition (externals_ex 0 0 (- (3 / 100)) 0) vic forcing_ex
        (snow_ex 1 (1 / 100)) (lake_ex 1)) = 99 / 100 - 2 / 100"
    using vapor_flux_priority
      [of vic forcing_ex "lake_ex 1" "externals_ex 0 0 (- (3 / 100)) 0" "snow_ex 1 (1 / 100)",
       OF consts_ok_vic pre(1) pre(2) Qnet_ex refl refl refl refl refl refl]
    by (simp add: before_vapor_iso_ex ex_sel)
  from a b c pre show ?thesis by (simp add: Qnet_ex consts_ok_vic)
qed

text \<open>
  Claim C4 as stated fails: where the flux is clamped, the lost lake ice (0.917 m, times
  the fraction 1 and the area 10) is taken off the lake volume, not added to it.
\<close>

theorem clamped_flux_lowers_lake_volume:
  "SnowIce (before_vapor_iso (externals_ex 0 0 (- 2) 0) vic forcing_ex (snow_ex (83 / 1000) 0)
       (lake_ex 1))
     + surf_water (snow (before_vapor_iso (externals_ex 0 0 (- 2) 0) vic forcing_ex
         (snow_ex (83 / 1000) 0) (lake_ex 1)))
     + LakeIce (before_vapor_iso (externals_ex 0 0 (- 2) 0) vic forcing_ex
         (snow_ex (83 / 1000) 0) (lake_ex 1))
     < - vapor_flux (snow (before_vapor_iso (externals_ex 0 0 (- 2) 0) vic forcing_ex
         (snow_ex (83 / 1000) 0) (lake_ex 1)))
   \<and> LakeIce (before_vapor_iso (externals_ex 0 0 (- 2) 0) vic forcing_ex
         (snow_ex (83 / 1000) 0) (lake_ex 1)) * fracprv forcing_ex * surface (lake_ex 1) 0
      = 917 / 100
   \<and> volume (lake_ex 1) = 1000
   \<and> map_option (volume \<circ> lake_out)
        (returned (ice_melt (externals_ex 0 0 (- 2) 0) vic forcing_ex (snow_ex (83 / 1000) 0)
           (lake_ex 1)))
      = Some (1000 - 917 / 100)"
proof -
  have "volume (lake_out (finish vic (melt_partition
        (before_partition (externals_ex 0 0 (- 2) 0) vic forcing_ex (snow_ex (83 / 1000) 0)
           (lake_ex 1))))) = 1000 - 917 / 100"
    by (simp add: finish_def melt_partition_def before_partition_def vapor_adjust_iso_def
        before_vapor_iso_ex ex_sel Let_def)
  then show ?thesis
    by (simp add: returned_iso_ex before_vapor_iso_ex ex_sel)
qed

section \<open>The melt against the two ice reservoirs\<close>

text \<open>
  Claim C5. In the isothermal branch, under the preconditions of the step, the computed
  melt \<open>M\<close> (zero when the refreeze energy is not negative, else its magnitude over
  \<^verbatim>\<open>Lf * RHO_W\<close> times the time step in seconds) is set against the snow ice \<open>S\<close>, then
  the lake ice \<open>L\<close>: \<open>M < S\<close> lowers the snow ice by \<open>M\<close> and adds \<open>M\<close> to the surface
  liquid; \<open>S \<le> M < S + L\<close> zeroes the snow ice, lowers the lake ice by \<open>M - S\<close>, records
  \<open>M - S\<close> as ice melt and adds \<open>S\<close> to the surface liquid; \<open>S + L \<le> M\<close> sets the melt to
  \<open>S + L\<close>, zeroes both reservoirs, records \<open>L\<close> as ice melt and adds \<open>S\<close> to the surface
  liquid.
\<close>

theorem melt_partitioned:
  assumes "consts_ok k" and "0 < delta_t f" and "0 \<le> hice l"
    and "Qnet_at_freezing ext k f s l = 0"
    and "fr = before_partition ext k f s l" and "fr' = melt_partition fr"
    and "M = SnowMelt fr" and "S = SnowIce fr" and "L = LakeIce fr"
    and "W = surf_water (snow fr)" and "re = RefreezeEnergy (start_frame ext k f s l)"
  shows "snd (ice_melt_frame ext k f s l) = Inr fr'
    \<and> M = (if 0 \<le> re then 0
            else \<bar>re\<bar> / (Lf k * RHO_W k) * real_of_int (delta_t f) * SECPHOUR k)
    \<and> 0 \<le> M
    \<and> (M < S \<longrightarrow>
         SnowIce fr' = S - M \<and> surf_water (snow fr') = W + M \<and> LakeIce fr' = L
         \<and> IceMelt fr' = 0 \<and> SnowMelt fr' = M)
    \<and> (S \<le> M \<and> M < S + L \<longrightarrow>
         SnowIce fr' = 0 \<and> LakeIce fr' = L - (M - S) \<and> IceMelt fr' = M - S
         \<and> surf_water (snow fr') = W + S \<and> SnowMelt fr' = M)
    \<and> (S + L \<le> M \<longrightarrow>
         SnowMelt fr' = S + L \<and> SnowIce fr' = 0 \<and> LakeIce fr' = 0 \<and> IceMelt fr' = L
         \<and> surf_water (snow fr') = W + S)"
proof -
  have run: "snd (ice_melt_frame ext k f s l) = Inr fr'"
    using assms(4,5,6) by (simp add: isothermal_frame)
  have pre: "0 \<le> SnowMelt (before_vapor_iso ext k f s l)"
    "0 \<le> LakeIce (before_vapor_iso ext k f s l)"
    using assms(1,2,3) before_vapor_iso_ice [of k f l ext s] by simp_all
  have M: "0 \<le> M"
    using pre assms(5,7) by (simp add: before_partition_def vapor_iso_ice)
  have LS: "0 \<le> L \<or> S = 0"
    using vapor_iso_ice(1) [OF pre(2), of f] assms(5,8,9) by (simp add: before_partition_def)
  have I: "IceMelt fr = 0"
    using assms(5) by (simp add: before_partition_def vapor_iso_stock before_vapor_iso_stock)
  have third: "S \<le> M" if "S + L \<le> M"
    using that M LS by auto
  have c1: "SnowIce fr' = S - M \<and> surf_water (snow fr') = W + M \<and> LakeIce fr' = L
         \<and> IceMelt fr' = 0 \<and> SnowMelt fr' = M" if "M < S"
    using that I partition_cases(1) [of fr] unfolding assms(6-10) by simp
  have c2: "SnowIce fr' = 0 \<and> LakeIce fr' = L - (M - S) \<and> IceMelt fr' = M - S
         \<and> surf_water (snow fr') = W + S \<and> SnowMelt fr' = M" if "S \<le> M" "M < S + L"
    using that partition_cases(2) [of fr] unfolding assms(6-10) by simp
  have c3: "SnowMelt fr' = S + L \<and> SnowIce fr' = 0 \<and> LakeIce fr' = 0 \<and> IceMelt fr' = L
         \<and> surf_water (snow fr') = W + S" if "S + L \<le> M"
    using that third [OF that] partition_cases(3) [of fr] unfolding assms(6-10) by simp
  have "SnowMelt (before_vapor_iso ext k f s l) =
      (if 0 \<le> re then 0
       else \<bar>re\<bar> / (Lf k * RHO_W k) * real_of_int (delta_t f) * SECPHOUR k)"
    using refreeze_SnowMelt_value [OF before_vapor_iso_eq [of k f ext s l]] assms(11)
    by simp
  then have Mre: "M = (if 0 \<le> re then 0
       else \<bar>re\<bar> / (Lf k * RHO_W k) * real_of_int (delta_t f) * SECPHOUR k)"
    using pre(2) assms(5,7) by (simp add: before_partition_def vapor_iso_ice)
  from run M Mre c1 c2 c3 show ?thesis by blast
qed

text \<open>
  The theorem on a melt of 0.02 m against 1 m of snow ice, against 0.01 m of snow ice on
  0.917 m of lake ice, and against 0.002 m of snow ice on 0.01 m of lake ice.
\<close>

theorem melt_partitioned_witness:
  "SnowIce (melt_partition (before_partition (externals_ex 0 (- (16685 / 9)) 0 0) vic
       forcing_ex (snow_ex 1 0) (lake_ex 1))) = 98 / 100
   \<and> surf_water (snow (melt_partition (before_partition (externals_ex 0 (- (16685 / 9)) 0 0)
       vic forcing_ex (snow_ex 1 0) (lake_ex 1)))) = 2 / 100
   \<and> SnowIce (melt_partition (before_partition (externals_ex 0 (- (16685 / 9)) 0 0) vic
       forcing_ex (snow_ex (1 / 100) 0) (lake_ex 1))) = 0
   \<and> LakeIce (melt_partition (before_partition (externals_ex 0 (- (16685 / 9)) 0 0) vic
       forcing_ex (snow_ex (1 / 100) 0) (lake_ex 1))) = 907 / 1000
   \<and> IceMelt (melt_partition (before_partition (externals_ex 0 (- (16685 / 9)) 0 0) vic
       forcing_ex (snow_ex (1 / 100) 0) (lake_ex 1))) = 1 / 100
   \<and> SnowMelt (melt_partition (before_partition (externals_ex 0 (- (16685 / 9)) 0 0) vic
       forcing_ex (snow_ex (2 / 1000) 0) (lake_ex (10 / 917)))) = 12 / 1000
   \<and> SnowIce (melt_partition (before_partition (externals_ex 0 (- (16685 / 9)) 0 0) vic
       forcing_ex (snow_ex (2 / 1000) 0) (lake_ex (10 / 917)))) = 0
   \<and> LakeIce (melt_partition (before_partition (externals_ex 0 (- (16685 / 9)) 0 0) vic
       forcing_ex (snow_ex (2 / 1000) 0) (lake_ex (10 / 917)))) = 0
   \<and> IceMelt (melt_partition (before_partition (externals_ex 0 (- (16685 / 9)) 0 0) vic
       forcing_ex (snow_ex (2 / 1000) 0) (lake_ex (10 / 917)))) = 1 / 100"
proof -
  have a: "SnowIce (melt_partition (before_partition (externals_ex 0 (- (16685 / 9)) 0 0) vic
       forcing_ex (snow_ex 1 0) (lake_ex 1))) = 98 / 100
   \<and> surf_water (snow (melt_partition (before_partition (externals_ex 0 (- (16685 / 9)) 0 0)
       vic forcing_ex (snow_ex 1 0) (lake_ex 1)))) = 2 / 100"
    using melt_partitioned
      [of vic forcing_ex "lake_ex 1" "externals_ex 0 (- (16685 / 9)) 0 0" "snow_ex 1 0",
       OF consts_ok_vic _ _ Qnet_ex refl refl refl refl refl refl refl]
    by (simp add: before_partition_ex ex_sel)
  have b: "SnowIce (melt_partition (before_partition (externals_ex 0 (- (16685 / 9)) 0 0) vic
       forcing_ex (snow_ex (1 / 100) 0) (lake_ex 1))) = 0
   \<and> LakeIce (melt_partition (before_partition (externals_ex 0 (- (16685 / 9)) 0 0) vic
       forcing_ex (snow_ex (1 / 100) 0) (lake_ex 1))) = 907 / 1000
   \<and> IceMelt (melt_partition (before_partition (externals_ex 0 (- (16685 / 9)) 0 0) vic
       forcing_ex (snow_ex (1 / 100) 0) (lake_ex 1))) = 1 / 100"
    using melt_partitioned
      [of vic forcing_ex "lake_ex 1" "externals_ex 0 (- (16685 / 9)) 0 0" "snow_ex (1 / 100) 0",
       OF consts_ok_vic _ _ Qnet_ex refl refl refl refl refl refl refl]
    by (simp add: before_partition_ex ex_sel)
  have c: "SnowMelt (melt_partition (before_partition (externals_ex 0 (- (16685 / 9)) 0 0) vic
       forcing_ex (snow_ex (2 / 1000) 0) (lake_ex (10 / 917)))) = 12 / 1000
   \<and> SnowIce (melt_partition (before_partition (externals_ex 0 (- (16685 / 9)) 0 0) vic
       forcing_ex (snow_ex (2 / 1000) 0) (lake_ex (10 / 917)))) = 0
   \<and> LakeIce (melt_partition (before_partition (externals_ex 0 (- (16685 / 9)) 0 0) vic
       forcing_ex (snow_ex (2 / 1000) 0) (lake_ex (10 / 917)))) = 0
   \<and> IceMelt (melt_partition (before_partition (externals_ex 0 (- (16685 / 9)) 0 0) vic
       forcing_ex (snow_ex (2 / 1000) 0) (lake_ex (10 / 917)))) = 1 / 100"
    using melt_partitioned
      [of vic forcing_ex "lake_ex (10 / 917)" "externals_ex 0 (- (16685 / 9)) 0 0"
        "snow_ex (2 / 1000) 0",
       OF consts_ok_vic _ _ Qnet_ex refl refl refl refl refl refl refl]
    by (simp add: before_partition_ex ex_sel)
  from a b c show ?thesis by simp
qed

section \<open>The liquid water cap\<close>

text \<open>
  Claim C6. After every call that returns, on either branch, the surface liquid water is
  at most \<^verbatim>\<open>LIQUID_WATER_CAPACITY\<close> times the remaining snow ice (the snow ice is the
  final \<^verbatim>\<open>swq\<close> less the final surface water); it is the lesser of the water held
  before the cap and the cap, so water above the cap is clamped to the cap exactly, and
  the excess, in millimetres, is the melt output (0 when there is none).
\<close>

theorem surface_water_capped:
  assumes "ice_melt ext k f s l = (calls, Inr r)"
  shows "\<exists>fr. ice_melt_frame ext k f s l = (calls, Inr fr)
    \<and> swq (snow_out r) - surf_water (snow_out r) = SnowIce fr
    \<and> surf_water (snow_out r)
        \<le> LIQUID_WATER_CAPACITY k * (swq (snow_out r) - surf_water (snow_out r))
    \<and> surf_water (snow_out r)
        = min (surf_water (snow fr)) (LIQUID_WATER_CAPACITY k * SnowIce fr)
    \<and> melt r = max 0 (surf_water (snow fr) - LIQUID_WATER_CAPACITY k * SnowIce fr) * 1000
    \<and> (if LIQUID_WATER_CAPACITY k * SnowIce fr < surf_water (snow fr)
        then surf_water (snow_out r) = LIQUID_WATER_CAPACITY k * SnowIce fr
        else surf_water (snow_out r) = surf_water (snow fr) \<and> melt r = 0)"
proof -
  from assms obtain fr where fr: "ice_melt_frame ext k f s l = (calls, Inr fr)"
    and r: "r = finish k fr"
    using ice_melt_Inr by blast
  have "swq (snow_out r) - surf_water (snow_out r) = SnowIce fr"
    by (simp add: r finish_fields)
  moreover have w: "surf_water (snow_out r)
        = min (surf_water (snow fr)) (LIQUID_WATER_CAPACITY k * SnowIce fr)"
    by (simp add: r finish_fields MaxLiquidWater_def)
  moreover have m: "melt r = max 0 (surf_water (snow fr) - LIQUID_WATER_CAPACITY k * SnowIce fr) * 1000"
    by (simp add: r finish_fields MaxLiquidWater_def)
  ultimately show ?thesis using fr by auto
qed

text \<open>The theorem on a pack of 0.5 m ice holding 0.5 m water: 0.0175 m stay, 482.5 mm leave.\<close>

theorem surface_water_capped_witness:
  "\<exists>calls r. ice_melt (externals_ex 0 0 0 0) vic forcing_ex (snow_ex 1 (1 / 2)) (lake_ex 1)
        = (calls, Inr r)
     \<and> surf_water (snow_out r)
        \<le> LIQUID_WATER_CAPACITY vic * (swq (snow_out r) - surf_water (snow_out r))
     \<and> surf_water (snow_out r) = 7 / 400 \<and> melt r = 965 / 2"
proof -
  obtain calls r where run:
    "ice_melt (externals_ex 0 0 0 0) vic forcing_ex (snow_ex 1 (1 / 2)) (lake_ex 1)
       = (calls, Inr r)"
    using ice_melt_iso_ex by blast
  then have r: "r = finish vic (melt_partition
        (before_partition (externals_ex 0 0 0 0) vic forcing_ex (snow_ex 1 (1 / 2)) (lake_ex 1)))"
    by (simp add: ice_melt_iso_ex)
  have "surf_water (snow_out r) = 7 / 400 \<and> melt r = 965 / 2"
    unfolding r
    by (simp add: finish_def MaxLiquidWater_def melt_partition_def before_partition_def
        vapor_adjust_iso_def before_vapor_iso_def refreeze_or_melt_def start_frame_ex ex_sel
        Let_def)
  with surface_water_capped [OF run] run show ?thesis by blast
qed

section \<open>The fatal path\<close>

text \<open>
  Claim C7, as amended. In the solver branch the step goes to the diagnostic dump, which
  writes every parameter and exits without a result, exactly when the solver's value is at
  or under -9998 (line 314 tests \<^verbatim>\<open>snow->surf_temp <= -9998\<close>); it then has called the
  solver once and nothing after the dump. Above -9998 the step completes.
\<close>

theorem fatal_iff_sentinel:
  assumes "Qnet_at_freezing ext k f s l \<noteq> 0"
  shows "solver_value ext k f s l =
           fst (root_brent ext (surf_temp s - SNOW_DT k) 0
             (frame_args k f (start_frame ext k f s l)) (cells (start_frame ext k f s l)))
    \<and> (is_exit (snd (ice_melt ext k f s l)) \<longleftrightarrow> solver_value ext k f s l \<le> - 9998)
    \<and> (solver_value ext k f s l \<le> - 9998 \<longrightarrow>
         ice_melt ext k f s l =
          ([Call_icerad, Call_CalcIcePackEnergyBalance 0,
            Call_root_brent (surf_temp s - SNOW_DT k) 0,
            Call_ErrorIcePackEnergyBalance (solver_value ext k f s l)],
           Inl (Exit (ErrorPrintIcePackEnergyBalance (solver_value ext k f s l)
                  (frame_args k f (solved ext k f s l)) (cells (solved ext k f s l))
                  (fst (solve_surface ext k f (start_frame ext k f s l)))))))
    \<and> (- 9998 < solver_value ext k f s l \<longrightarrow>
         ice_melt ext k f s l =
          ([Call_icerad, Call_CalcIcePackEnergyBalance 0,
            Call_root_brent (surf_temp s - SNOW_DT k) 0,
            Call_CalcIcePackEnergyBalance (solver_value ext k f s l)],
           Inr (finish k (vapor_adjust_sub f (before_vapor_sub ext k f s l)))))"
proof (intro conjI impI)
  show "solver_value ext k f s l =
           fst (root_brent ext (surf_temp s - SNOW_DT k) 0
             (frame_args k f (start_frame ext k f s l)) (cells (start_frame ext k f s l)))"
    by (rule solver_value_eq)
  show "is_exit (snd (ice_melt ext k f s l)) \<longleftrightarrow> solver_value ext k f s l \<le> - 9998"
    using assms by (simp add: ice_melt_snd is_exit_map subfreezing_frame)
next
  assume "solver_value ext k f s l \<le> - 9998"
  with assms show "ice_melt ext k f s l =
          ([Call_icerad, Call_CalcIcePackEnergyBalance 0,
            Call_root_brent (surf_temp s - SNOW_DT k) 0,
            Call_ErrorIcePackEnergyBalance (solver_value ext k f s l)],
           Inl (Exit (ErrorPrintIcePackEnergyBalance (solver_value ext k f s l)
                  (frame_args k f (solved ext k f s l)) (cells (solved ext k f s l))
                  (fst (solve_surface ext k f (start_frame ext k f s l))))))"
    by (simp add: ice_melt_def subfreezing_frame)
next
  assume "- 9998 < solver_value ext k f s l"
  with assms show "ice_melt ext k f s l =
          ([Call_icerad, Call_CalcIcePackEnergyBalance 0,
            Call_root_brent (surf_temp s - SNOW_DT k) 0,
            Call_CalcIcePackEnergyBalance (solver_value ext k f s l)],
           Inr (finish k (vapor_adjust_sub f (before_vapor_sub ext k f s l))))"
    by (simp add: ice_melt_def subfreezing_frame)
qed

text \<open>The theorem at a solver value of -9999 (the dump) and of -3 (a result).\<close>

theorem fatal_iff_sentinel_witness:
  "Qnet_at_freezing (externals_ex (- 1) 0 0 (- 9999)) vic forcing_ex (snow_ex 1 0) (lake_ex 1)
      \<noteq> 0
   \<and> solver_value (externals_ex (- 1) 0 0 (- 9999)) vic forcing_ex (snow_ex 1 0) (lake_ex 1)
      = - 9999
   \<and> is_exit (snd (ice_melt (externals_ex (- 1) 0 0 (- 9999)) vic forcing_ex (snow_ex 1 0)
                     (lake_ex 1)))
   \<and> Qnet_at_freezing (externals_ex (- 1) 0 0 (- 3)) vic forcing_ex (snow_ex 1 0) (lake_ex 1)
      \<noteq> 0
   \<and> solver_value (externals_ex (- 1) 0 0 (- 3)) vic forcing_ex (snow_ex 1 0) (lake_ex 1) = - 3
   \<and> \<not> is_exit (snd (ice_melt (externals_ex (- 1) 0 0 (- 3)) vic forcing_ex (snow_ex 1 0)
                       (lake_ex 1)))"
  using fatal_iff_sentinel
      [of "externals_ex (- 1) 0 0 (- 9999)" vic forcing_ex "snow_ex 1 0" "lake_ex 1"]
    fatal_iff_sentinel
      [of "externals_ex (- 1) 0 0 (- 3)" vic forcing_ex "snow_ex 1 0" "lake_ex 1"]
  by (simp add: Qnet_ex solver_value_ex)

text \<open>
  Claim C7 as stated fails at the boundary: a solver value of exactly -9998 is not below
  -9998, and the step still goes to the dump.
\<close>

theorem sentinel_boundary_is_fatal:
  "Qnet_at_freezing (externals_ex (- 1) 0 0 (- 9998)) vic forcing_ex (snow_ex 1 0) (lake_ex 1)
      \<noteq> 0
   \<and> solver_value (externals_ex (- 1) 0 0 (- 9998)) vic forcing_ex (snow_ex 1 0) (lake_ex 1)
      = - 9998
   \<and> \<not> solver_value (externals_ex (- 1) 0 0 (- 9998)) vic forcing_ex (snow_ex 1 0) (lake_ex 1)
      < - 9998
   \<and> is_exit (snd (ice_melt (externals_ex (- 1) 0 0 (- 9998)) vic forcing_ex (snow_ex 1 0)
                     (lake_ex 1)))"
  by (simp add: Qnet_ex solver_value_ex ice_melt_snd is_exit_map subfreezing_frame)

section \<open>The surface below freezing\<close>

text \<open>
  Claim C8. In the solver branch (the solver's value above -9998, a positive time step and
  positive constants), the whole surface liquid water (the prior surface water and the
  rain) is added to the snow ice, its freeze energy
  \<^verbatim>\<open>surf_water * Lf * RHO_W / (delta_t * SECPHOUR)\<close> is added to \<^verbatim>\<open>melt_energy\<close>, the
  surface liquid water is set to zero and \<^verbatim>\<open>SnowMelt\<close> is set to zero, before the vapor
  flux is applied.
\<close>

theorem surface_water_freezes:
  assumes "Qnet_at_freezing ext k f s l \<noteq> 0" and "- 9998 < solver_value ext k f s l"
    and "consts_ok k" and "0 < delta_t f"
  shows "snd (ice_melt_frame ext k f s l)
           = Inr (vapor_adjust_sub f (before_vapor_sub ext k f s l))
    \<and> SnowIce (before_vapor_sub ext k f s l)
        = SnowIce (before_freeze ext k f s l) + surf_water (snow (before_freeze ext k f s l))
    \<and> melt_energy (before_vapor_sub ext k f s l)
        = melt_energy (before_freeze ext k f s l)
          + surf_water (snow (before_freeze ext k f s l)) * Lf k * RHO_W k
              / (real_of_int (delta_t f) * SECPHOUR k)
    \<and> surf_water (snow (before_vapor_sub ext k f s l)) = 0
    \<and> SnowMelt (before_vapor_sub ext k f s l) = 0
    \<and> surf_water (snow (before_freeze ext k f s l)) = surf_water s + rainfall f / 1000
    \<and> SnowIce (before_freeze ext k f s l) = swq s - surf_water s + snowfall f / 1000
    \<and> melt_energy (before_freeze ext k f s l) = 0"
proof -
  from assms(1,2) have "snd (ice_melt_frame ext k f s l)
      = Inr (vapor_adjust_sub f (before_vapor_sub ext k f s l))"
    by (simp add: subfreezing_frame)
  moreover have "SnowIce (before_vapor_sub ext k f s l)
        = SnowIce (before_freeze ext k f s l) + surf_water (snow (before_freeze ext k f s l))"
    "melt_energy (before_vapor_sub ext k f s l)
        = melt_energy (before_freeze ext k f s l)
          + surf_water (snow (before_freeze ext k f s l)) * Lf k * RHO_W k
              / (real_of_int (delta_t f) * SECPHOUR k)"
    "surf_water (snow (before_vapor_sub ext k f s l)) = 0"
    "SnowMelt (before_vapor_sub ext k f s l) = 0"
    by (simp_all add: before_vapor_sub_def freeze_surface_water_def Let_def)
  ultimately show ?thesis by (simp add: before_freeze_fields)
qed

text \<open>The theorem on a pack of 1 m of which 0.25 m is liquid, solved at -3 C.\<close>

theorem surface_water_freezes_witness:
  "Qnet_at_freezing (externals_ex (- 1) 0 0 (- 3)) vic forcing_ex (snow_ex 1 (1 / 4)) (lake_ex 1)
      \<noteq> 0
   \<and> - 9998 < solver_value (externals_ex (- 1) 0 0 (- 3)) vic forcing_ex (snow_ex 1 (1 / 4))
        (lake_ex 1)
   \<and> consts_ok vic \<and> 0 < delta_t forcing_ex
   \<and> SnowIce (before_vapor_sub (externals_ex (- 1) 0 0 (- 3)) vic forcing_ex
        (snow_ex 1 (1 / 4)) (lake_ex 1)) = 1
   \<and> surf_water (snow (before_vapor_sub (externals_ex (- 1) 0 0 (- 3)) vic forcing_ex
        (snow_ex 1 (1 / 4)) (lake_ex 1))) = 0
   \<and> SnowMelt (before_vapor_sub (externals_ex (- 1) 0 0 (- 3)) vic forcing_ex
        (snow_ex 1 (1 / 4)) (lake_ex 1)) = 0
   \<and> melt_energy (before_vapor_sub (externals_ex (- 1) 0 0 (- 3)) vic forcing_ex
        (snow_ex 1 (1 / 4)) (lake_ex 1)) = 1 / 4 * 333700 * 1000 / 3600"
  using surface_water_freezes
    [of "externals_ex (- 1) 0 0 (- 3)" vic forcing_ex "snow_ex 1 (1 / 4)" "lake_ex 1"]
  by (simp add: Qnet_ex solver_value_ex ex_sel consts_ok_vic)

section \<open>The fields the step writes\<close>

text \<open>
  Claim C10. For every call that returns, \<^verbatim>\<open>pack_water\<close> and \<^verbatim>\<open>pack_temp\<close> are as
  before; the snow structure differs from the prior one at most in \<^verbatim>\<open>surf_temp\<close>,
  \<^verbatim>\<open>surf_water\<close>, \<^verbatim>\<open>swq\<close>, \<^verbatim>\<open>vapor_flux\<close>, \<^verbatim>\<open>blowing_flux\<close>,
  \<^verbatim>\<open>surface_flux\<close> and \<^verbatim>\<open>mass_error\<close>, and the lake structure at most in
  \<^verbatim>\<open>hice\<close>, \<^verbatim>\<open>fraci\<close> and \<^verbatim>\<open>volume\<close>. (A call that ends in the dump returns
  no structure.)
\<close>

theorem untouched_fields:
  assumes "ice_melt ext k f s l = (calls, Inr r)"
  shows "pack_water (snow_out r) = pack_water s \<and> pack_temp (snow_out r) = pack_temp s
    \<and> snow_out r =
        s\<lparr>surf_temp := surf_temp (snow_out r), surf_water := surf_water (snow_out r),
          swq := swq (snow_out r), vapor_flux := vapor_flux (snow_out r),
          blowing_flux := blowing_flux (snow_out r),
          surface_flux := surface_flux (snow_out r),
          mass_error := mass_error (snow_out r)\<rparr>
    \<and> lake_out r =
        l\<lparr>hice := hice (lake_out r), fraci := fraci (lake_out r),
          volume := volume (lake_out r)\<rparr>"
proof -
  from assms obtain fr where fr: "ice_melt_frame ext k f s l = (calls, Inr fr)"
    and r: "r = finish k fr"
    using ice_melt_Inr by blast
  from fr have "same_rest s l fr" by (rule same_rest_frame)
  then have rest: "same_snow_rest s (snow_out r)" "same_lake_rest l (lake_out r)"
    using same_rest_finish [of s l fr k] r by simp_all
  from rest(1) have "pack_water (snow_out r) = pack_water s" "pack_temp (snow_out r) = pack_temp s"
    by (simp_all add: same_snow_rest_def)
  with snow_rest_eq [OF rest(1)] lake_rest_eq [OF rest(2)] show ?thesis by blast
qed


theorem untouched_fields_witness:
  "\<exists>calls r. ice_melt (externals_ex 0 0 0 0) vic forcing_ex (snow_ex 1 0) (lake_ex 1)
        = (calls, Inr r)
     \<and> pack_water (snow_out r) = 7 \<and> pack_temp (snow_out r) = - 2
     \<and> surface (lake_out r) 0 = 10"
proof -
  obtain calls r where run:
    "ice_melt (externals_ex 0 0 0 0) vic forcing_ex (snow_ex 1 0) (lake_ex 1) = (calls, Inr r)"
    using ice_melt_iso_ex by blast
  from untouched_fields [OF run]
  have "pack_water (snow_out r) = 7" "pack_temp (snow_out r) = - 2"
    and "lake_out r = (lake_ex 1)\<lparr>hice := hice (lake_out r), fraci := fraci (lake_out r),
          volume := volume (lake_out r)\<rparr>"
    by (simp_all add: ex_sel)
  moreover from this(3) have "surface (lake_out r) 0 = surface (lake_ex 1) 0"
    by (metis lake_var_struct.select_convs(4) lake_var_struct.surjective
        lake_var_struct.update_convs(1) lake_var_struct.update_convs(2)
        lake_var_struct.update_convs(3))
  ultimately show ?thesis using run by (auto simp add: ex_sel)
qed

end
